theory Spec2Isabelle
  imports Main
begin

section \<open>Error taxonomy (mcp-sdk/types.js)\<close>

text \<open>
  The error codes of \<^verbatim>\<open>ErrorCode\<close> and the exception class \<^verbatim>\<open>McpError\<close>.
\<close>

datatype ErrorCode =
    ParseError
  | InvalidRequest
  | MethodNotFound
  | InvalidParams
  | InternalError
  | ConfigurationError
  | Unauthorized
  | Forbidden
  | NotFound

fun error_code_number :: "ErrorCode \<Rightarrow> int" where
  "error_code_number ParseError = -32700"
| "error_code_number InvalidRequest = -32600"
| "error_code_number MethodNotFound = -32601"
| "error_code_number InvalidParams = -32602"
| "error_code_number InternalError = -32603"
| "error_code_number ConfigurationError = -32000"
| "error_code_number Unauthorized = -32001"
| "error_code_number Forbidden = -32003"
| "error_code_number NotFound = -32004"

text \<open>
  A validation issue of the schema library: the path of the offending field and the
  message of the violated constraint.
\<close>

datatype path_key = Key string | Idx nat

datatype zod_issue = Issue (issue_path: "path_key list") (issue_message: string)

text \<open>
  Everything the code can catch. The code tells thrown values apart only by
  \<^verbatim>\<open>instanceof McpError\<close> and by the properties it reads from them:
  \<^verbatim>\<open>error.code\<close>, \<^verbatim>\<open>error.status\<close>, \<^verbatim>\<open>error.message\<close> and
  \<^verbatim>\<open>error.response?.data?.message\<close>, each of which may be undefined (\<open>None\<close>).
  \<^item> \<open>McpError code message\<close> is an instance of \<^verbatim>\<open>McpError\<close>;
  \<^item> \<open>ZodError issues\<close> is what a schema's \<^verbatim>\<open>parse\<close> throws;
  \<^item> \<open>JsError status message response\<close> is any other thrown value, in particular the
    HTTP errors of the remote client.
\<close>

datatype thrown =
    McpError ErrorCode string
  | ZodError "zod_issue list"
  | JsError "int option" "string option" "string option"

text \<open>
  The schema library renders the message of a \<^verbatim>\<open>ZodError\<close> from its issues (as
  JSON text); the rendering is abbreviated to the issues' messages, one per line.
\<close>

fun zod_message :: "zod_issue list \<Rightarrow> string" where
  "zod_message [] = []"
| "zod_message (i # is) = issue_message i @ [CHR 0x0A] @ zod_message is"

fun is_McpError :: "thrown \<Rightarrow> bool" where
  "is_McpError (McpError c m) = True"
| "is_McpError e = False"

fun thrown_code :: "thrown \<Rightarrow> ErrorCode option" where
  "thrown_code (McpError c m) = Some c"
| "thrown_code e = None"

fun thrown_status :: "thrown \<Rightarrow> int option" where
  "thrown_status (JsError s m r) = s"
| "thrown_status e = None"

fun thrown_message :: "thrown \<Rightarrow> string option" where
  "thrown_message (McpError c m) = Some m"
| "thrown_message (ZodError is) = Some (zod_message is)"
| "thrown_message (JsError s m r) = m"

fun thrown_response_message :: "thrown \<Rightarrow> string option" where
  "thrown_response_message (JsError s m r) = r"
| "thrown_response_message e = None"

text \<open>
  JavaScript's \<^verbatim>\<open>a || b\<close> on a number or a string that may be undefined: 0, the
  empty string and undefined are falsy. A template literal prints undefined as the
  text \<^verbatim>\<open>undefined\<close>.
\<close>

fun or_number :: "int option \<Rightarrow> int \<Rightarrow> int" where
  "or_number None d = d"
| "or_number (Some n) d = (if n = 0 then d else n)"

fun or_string :: "string option \<Rightarrow> string \<Rightarrow> string" where
  "or_string None d = d"
| "or_string (Some s) d = (if s = [] then d else s)"

fun template :: "string option \<Rightarrow> string" where
  "template None = ''undefined''"
| "template (Some s) = s"

section \<open>The remote client and the calls it receives\<close>

text \<open>
  One entry of a tree passed to tree creation (files.ts, lines 107-112).
\<close>

record tree_entry =
  entry_path :: string
  entry_mode :: string
  entry_type :: string
  entry_content :: string

text \<open>
  Argument bags and response payloads are JSON values. An object is the list of its
  properties, whose keys are distinct; a missing property reads as undefined
  (\<open>None\<close>). Numbers are taken to be integers (identifiers, counts, page numbers).
\<close>

datatype json =
    JNull
  | JBool bool
  | JNum int
  | JStr string
  | JArr "json list"
  | JObj "(string \<times> json) list"

fun property :: "json option \<Rightarrow> string \<Rightarrow> json option" where
  "property (Some (JObj kvs)) k = map_of kvs k"
| "property v k = None"

text \<open>
  The calls made on the remote client (Octokit), with their parameters. The log of a
  run is the list of the calls it issued, oldest first.
\<close>

datatype request =
    GitGetRef string string string
  | GitCreateRef string string string string
  | GitGetCommit string string string
  | GitCreateTree string string string "tree_entry list"
  | GitCreateCommit string string string string "string list"
  | GitUpdateRef string string string string
  | ReposGet string string
  | ReposGetContent string string string string
  | ReposCreateFork "json option" "json option" "json option"
  | PullsListFiles "json option" "json option" "json option"

type_synonym history = "request list"

text \<open>The parts of the responses that the code reads.\<close>

record git_ref =
  ref_name :: string
  object_sha :: string

record git_commit =
  commit_sha :: string
  tree_sha :: string

record git_tree =
  new_tree_sha :: string

datatype content_data =
    Directory "string list"
  | File string

record repo_data =
  default_branch :: string

record repo_summary =
  summary_name :: json
  summary_full_name :: json
  summary_owner_login :: json

record fork_data =
  fork_id :: json
  fork_name :: json
  fork_full_name :: json
  fork_owner_login :: json
  fork_owner_id :: json
  fork_owner_type :: json
  fork_private :: json
  fork_html_url :: json
  fork_description :: json
  fork_fork :: json
  fork_created_at :: json
  fork_updated_at :: json
  fork_pushed_at :: json
  fork_default_branch :: json
  fork_parent :: "repo_summary option"
  fork_source :: "repo_summary option"

record pull_file =
  pull_file_sha :: json
  pull_file_filename :: json
  pull_file_status :: json
  pull_file_additions :: json
  pull_file_deletions :: json
  pull_file_changes :: json
  pull_file_blob_url :: json
  pull_file_raw_url :: json
  pull_file_contents_url :: json
  pull_file_patch :: "json option"

text \<open>
  The remote service is a black box: each verb answers a call with a response or
  throws, and the answer may depend on every call received before (the history), which
  covers any deterministic remote and any interleaving of other actors seen by one
  sequence of calls.
\<close>

record octokit =
  git_getRef :: "history \<Rightarrow> string \<Rightarrow> string \<Rightarrow> string \<Rightarrow> thrown + git_ref"
  git_createRef :: "history \<Rightarrow> string \<Rightarrow> string \<Rightarrow> string \<Rightarrow> string \<Rightarrow> thrown + git_ref"
  git_getCommit :: "history \<Rightarrow> string \<Rightarrow> string \<Rightarrow> string \<Rightarrow> thrown + git_commit"
  git_createTree ::
    "history \<Rightarrow> string \<Rightarrow> string \<Rightarrow> string \<Rightarrow> tree_entry list \<Rightarrow> thrown + git_tree"
  git_createCommit ::
    "history \<Rightarrow> string \<Rightarrow> string \<Rightarrow> string \<Rightarrow> string \<Rightarrow> string list \<Rightarrow> thrown + git_commit"
  git_updateRef :: "history \<Rightarrow> string \<Rightarrow> string \<Rightarrow> string \<Rightarrow> string \<Rightarrow> thrown + git_ref"
  repos_get :: "history \<Rightarrow> string \<Rightarrow> string \<Rightarrow> thrown + repo_data"
  repos_getContent ::
    "history \<Rightarrow> string \<Rightarrow> string \<Rightarrow> string \<Rightarrow> string \<Rightarrow> thrown + content_data"
  repos_createFork ::
    "history \<Rightarrow> json option \<Rightarrow> json option \<Rightarrow> json option \<Rightarrow> thrown + fork_data"
  pulls_listFiles ::
    "history \<Rightarrow> json option \<Rightarrow> json option \<Rightarrow> json option \<Rightarrow> thrown + pull_file list"

section \<open>Asynchronous code as a state and exception monad\<close>

text \<open>
  An \<^verbatim>\<open>async\<close> function runs its awaits in sequence: it takes the log of the calls
  issued so far and returns either the thrown value or its result, with the new log.
\<close>

type_synonym 'a io = "history \<Rightarrow> (thrown + 'a) \<times> history"

definition io_return :: "'a \<Rightarrow> 'a io" where
  "io_return x = (\<lambda>h. (Inr x, h))"

definition io_throw :: "thrown \<Rightarrow> 'a io" where
  "io_throw e = (\<lambda>h. (Inl e, h))"

definition io_bind :: "'a io \<Rightarrow> ('a \<Rightarrow> 'b io) \<Rightarrow> 'b io" where
  "io_bind m f = (\<lambda>h. case m h of (Inl e, h') \<Rightarrow> (Inl e, h') | (Inr x, h') \<Rightarrow> f x h')"

definition try_catch :: "'a io \<Rightarrow> (thrown \<Rightarrow> 'a io) \<Rightarrow> 'a io" where
  "try_catch m handler =
     (\<lambda>h. case m h of (Inl e, h') \<Rightarrow> handler e h' | (Inr x, h') \<Rightarrow> (Inr x, h'))"

text \<open>
  A call on the client: the remote answers from the history, and the call is logged.
\<close>

definition remote_call :: "request \<Rightarrow> (history \<Rightarrow> thrown + 'a) \<Rightarrow> 'a io" where
  "remote_call req answer = (\<lambda>h. (answer h, h @ [req]))"

section \<open>The client wrapper (utils/github-api.ts)\<close>

text \<open>
  The instance of \<^verbatim>\<open>GitHubApi\<close>: its Octokit client and the base URL it was
  constructed with. \<^verbatim>\<open>getGitHubApi\<close> builds the one instance from the environment
  at first use; the server checks at start that the token is set, so the tools receive
  the instance as a parameter.
\<close>

record GitHubApi =
  octokit :: octokit
  baseUrl :: "string option"

text \<open>\<^verbatim>\<open>handleApiError\<close> (lines 107-142).\<close>

fun status_error_code :: "int \<Rightarrow> ErrorCode" where
  "status_error_code status =
     (if status = 400 then InvalidParams
      else if status = 401 then Unauthorized
      else if status = 403 then Forbidden
      else if status = 404 then NotFound
      else if status = 422 then InvalidParams
      else InternalError)"

fun handleApiError :: "thrown \<Rightarrow> thrown" where
  "handleApiError (McpError c m) = McpError c m"
| "handleApiError error =
     (let status = or_number (thrown_status error) 500;
          message = or_string (thrown_message error) ''Unknown GitHub API error'';
          response = or_string (thrown_response_message error) ''''
      in McpError (status_error_code status)
           (''GitHub API Error: '' @ message @
              (if response \<noteq> [] then '' - '' @ response else '''')))"

text \<open>\<^verbatim>\<open>branchExists\<close> (lines 41-55).\<close>

definition branchExists :: "GitHubApi \<Rightarrow> string \<Rightarrow> string \<Rightarrow> string \<Rightarrow> bool io" where
  "branchExists gh owner repo branch =
     try_catch
       (io_bind
          (remote_call (GitGetRef owner repo (''heads/'' @ branch))
             (\<lambda>h. git_getRef (octokit gh) h owner repo (''heads/'' @ branch)))
          (\<lambda>_. io_return True))
       (\<lambda>error.
          if thrown_status error = Some 404 then io_return False
          else io_throw (handleApiError error))"

text \<open>\<^verbatim>\<open>getDefaultBranch\<close> (lines 92-102).\<close>

definition getDefaultBranch :: "GitHubApi \<Rightarrow> string \<Rightarrow> string \<Rightarrow> string io" where
  "getDefaultBranch gh owner repo =
     try_catch
       (io_bind
          (remote_call (ReposGet owner repo) (\<lambda>h. repos_get (octokit gh) h owner repo))
          (\<lambda>data. io_return (default_branch data)))
       (\<lambda>error. io_throw (handleApiError error))"

text \<open>
  \<^verbatim>\<open>createBranch\<close> (lines 60-87). \<^verbatim>\<open>fromBranch || ...\<close> falls back to the
  default branch when \<^verbatim>\<open>fromBranch\<close> is undefined or empty.
\<close>

definition createBranch ::
  "GitHubApi \<Rightarrow> string \<Rightarrow> string \<Rightarrow> string \<Rightarrow> string option \<Rightarrow> git_ref io" where
  "createBranch gh owner repo branch fromBranch =
     try_catch
       (io_bind
          (if or_string fromBranch [] \<noteq> [] then io_return (or_string fromBranch [])
           else getDefaultBranch gh owner repo)
          (\<lambda>defaultBranch.
             io_bind
               (remote_call (GitGetRef owner repo (''heads/'' @ defaultBranch))
                  (\<lambda>h. git_getRef (octokit gh) h owner repo (''heads/'' @ defaultBranch)))
               (\<lambda>refData.
                  io_bind
                    (remote_call
                       (GitCreateRef owner repo (''refs/heads/'' @ branch) (object_sha refData))
                       (\<lambda>h. git_createRef (octokit gh) h owner repo
                              (''refs/heads/'' @ branch) (object_sha refData)))
                    (\<lambda>data. io_return data))))
       (\<lambda>error. io_throw (handleApiError error))"

section \<open>Error helpers (utils/error-handling.ts)\<close>

text \<open>
  \<^verbatim>\<open>tryCatchAsync\<close> (lines 37-52): an \<^verbatim>\<open>McpError\<close> is rethrown as it is, anything
  else is wrapped as an internal error whose message is prefixed.
\<close>

definition tryCatchAsync :: "'a io \<Rightarrow> string \<Rightarrow> 'a io" where
  "tryCatchAsync fn errorMessage =
     try_catch fn
       (\<lambda>error.
          if is_McpError error then io_throw error
          else io_throw
                 (McpError InternalError
                    (errorMessage @ '': '' @ template (thrown_message error))))"

text \<open>
  \<^verbatim>\<open>safeJsonParse\<close> (lines 9-15), called with the default error message. The
  runtime's \<^verbatim>\<open>JSON.parse\<close> is a parameter: it returns the value, or the message of
  the syntax error it throws.
\<close>

definition safeJsonParse :: "(string \<Rightarrow> string + json) \<Rightarrow> string \<Rightarrow> json io" where
  "safeJsonParse JSON_parse input =
     (case JSON_parse input of
        Inr v \<Rightarrow> io_return v
      | Inl message \<Rightarrow> io_throw (McpError InvalidParams (''Invalid JSON'' @ '': '' @ message)))"

section \<open>Schemas (utils/validation.ts)\<close>

text \<open>
  The schema library (zod) is not part of the repository; its \<^verbatim>\<open>parse\<close> is modelled
  as documented for the constructors the schemas use. A parser receives the path of the
  value and the value (undefined is \<open>None\<close>), and returns the typed value or the issues.
  An object schema built by \<^verbatim>\<open>z.object\<close> reads the keys of its shape, in order, and
  collects the issues of all of them; keys of the input that the shape does not declare
  are not looked at and are absent from the result (the library's default for unknown
  keys is to strip them; none of the schemas asks for \<^verbatim>\<open>strict\<close>).
\<close>

type_synonym 'a parsed = "zod_issue list + 'a"

fun json_type_name :: "json \<Rightarrow> string" where
  "json_type_name JNull = ''null''"
| "json_type_name (JBool b) = ''boolean''"
| "json_type_name (JNum n) = ''number''"
| "json_type_name (JStr s) = ''string''"
| "json_type_name (JArr vs) = ''array''"
| "json_type_name (JObj kvs) = ''object''"

text \<open>\<^verbatim>\<open>z.string().min(n, msg)\<close>.\<close>

fun z_string_min :: "nat \<Rightarrow> string \<Rightarrow> path_key list \<Rightarrow> json option \<Rightarrow> string parsed" where
  "z_string_min n msg p None = Inl [Issue p ''Required'']"
| "z_string_min n msg p (Some (JStr s)) = (if length s < n then Inl [Issue p msg] else Inr s)"
| "z_string_min n msg p (Some v) =
     Inl [Issue p (''Expected string, received '' @ json_type_name v)]"

fun z_both :: "'a parsed \<Rightarrow> 'b parsed \<Rightarrow> ('a \<times> 'b) parsed" where
  "z_both (Inr x) (Inr y) = Inr (x, y)"
| "z_both (Inl e) (Inr y) = Inl e"
| "z_both (Inr x) (Inl e) = Inl e"
| "z_both (Inl e1) (Inl e2) = Inl (e1 @ e2)"

fun z_items ::
  "(path_key list \<Rightarrow> json option \<Rightarrow> 'a parsed) \<Rightarrow> path_key list \<Rightarrow> nat \<Rightarrow> json list \<Rightarrow>
   'a list parsed" where
  "z_items elem p i [] = Inr []"
| "z_items elem p i (v # vs) =
     (case z_both (elem (p @ [Idx i]) (Some v)) (z_items elem p (Suc i) vs) of
        Inl e \<Rightarrow> Inl e
      | Inr (x, xs) \<Rightarrow> Inr (x # xs))"

text \<open>\<^verbatim>\<open>z.array(elem).min(n, msg)\<close>.\<close>

fun z_array_min ::
  "(path_key list \<Rightarrow> json option \<Rightarrow> 'a parsed) \<Rightarrow> nat \<Rightarrow> string \<Rightarrow> path_key list \<Rightarrow>
   json option \<Rightarrow> 'a list parsed" where
  "z_array_min elem n msg p None = Inl [Issue p ''Required'']"
| "z_array_min elem n msg p (Some (JArr vs)) =
     (if length vs < n then
        (case z_items elem p 0 vs of
           Inl e \<Rightarrow> Inl (Issue p msg # e)
         | Inr xs \<Rightarrow> Inl [Issue p msg])
      else z_items elem p 0 vs)"
| "z_array_min elem n msg p (Some v) =
     Inl [Issue p (''Expected array, received '' @ json_type_name v)]"

text \<open>The element schema of \<^verbatim>\<open>files\<close> in \<^verbatim>\<open>PushFilesSchema\<close> (lines 26-29).\<close>

record file_arg =
  file_path :: string
  file_content :: string

fun FileSchema_parse :: "path_key list \<Rightarrow> json option \<Rightarrow> file_arg parsed" where
  "FileSchema_parse p None = Inl [Issue p ''Required'']"
| "FileSchema_parse p (Some (JObj kvs)) =
     (case z_both
             (z_string_min 1 ''File path is required'' (p @ [Key ''path'']) (map_of kvs ''path''))
             (z_string_min 1 ''File content is required'' (p @ [Key ''content''])
                (map_of kvs ''content'')) of
        Inl e \<Rightarrow> Inl e
      | Inr (path, content) \<Rightarrow> Inr \<lparr>file_path = path, file_content = content\<rparr>)"
| "FileSchema_parse p (Some v) =
     Inl [Issue p (''Expected object, received '' @ json_type_name v)]"

text \<open>
  \<^verbatim>\<open>PushFilesSchema\<close> (lines 23-32): \<^verbatim>\<open>OwnerRepoSchema\<close> (lines 4-7) extended with
  \<^verbatim>\<open>branch\<close>, \<^verbatim>\<open>files\<close> and \<^verbatim>\<open>message\<close>.
\<close>

record push_files_args =
  pf_owner :: string
  pf_repo :: string
  pf_branch :: string
  pf_files :: "file_arg list"
  pf_message :: string

fun PushFilesSchema_parse :: "json option \<Rightarrow> push_files_args parsed" where
  "PushFilesSchema_parse None = Inl [Issue [] ''Required'']"
| "PushFilesSchema_parse (Some (JObj kvs)) =
     (case z_both
             (z_string_min 1 ''Repository owner is required'' [Key ''owner''] (map_of kvs ''owner''))
          (z_both
             (z_string_min 1 ''Repository name is required'' [Key ''repo''] (map_of kvs ''repo''))
          (z_both
             (z_string_min 1 ''Branch name is required'' [Key ''branch''] (map_of kvs ''branch''))
          (z_both
             (z_array_min FileSchema_parse 1 ''At least one file is required'' [Key ''files'']
                (map_of kvs ''files''))
             (z_string_min 1 ''Commit message is required'' [Key ''message'']
                (map_of kvs ''message''))))) of
        Inl e \<Rightarrow> Inl e
      | Inr (owner, repo, branch, files, message) \<Rightarrow>
          Inr \<lparr>pf_owner = owner, pf_repo = repo, pf_branch = branch, pf_files = files,
               pf_message = message\<rparr>)"
| "PushFilesSchema_parse (Some v) =
     Inl [Issue [] (''Expected object, received '' @ json_type_name v)]"

section \<open>File tools (tools/files.ts)\<close>

text \<open>
  \<^verbatim>\<open>Promise.all\<close> over \<^verbatim>\<open>files.map(async ...)\<close>: every callback is started, in
  input order, and issues its call before it first awaits, so all the calls are logged
  whatever their outcome; the results come in input order. When several callbacks fail,
  \<^verbatim>\<open>Promise.all\<close> rejects with the failure that arrives first; the model takes
  the first in input order.
\<close>

fun promise_all :: "'a io list \<Rightarrow> 'a list io" where
  "promise_all [] = io_return []"
| "promise_all (m # ms) =
     (\<lambda>h. case m h of
             (r, h1) \<Rightarrow>
               (case promise_all ms h1 of
                  (rs, h2) \<Rightarrow>
                    (case r of
                       Inl e \<Rightarrow> (Inl e, h2)
                     | Inr x \<Rightarrow> (case rs of Inl e \<Rightarrow> (Inl e, h2) | Inr xs \<Rightarrow> (Inr (x # xs), h2)))))"

text \<open>
  The callback of \<^verbatim>\<open>files.map\<close> in \<^verbatim>\<open>pushFiles\<close> (lines 86-113): the content of
  the path is read on the branch; a failure with status 404 is ignored, any other is
  rethrown; \<^verbatim>\<open>fileSha\<close> is not used by the entry (\<open>blob_entry\<close>, lines 107-112).
\<close>

text \<open>
  The answers to the content read with which the callback goes on to return its entry
  (lines 89-105): any content, or a failure with status 404. Any other failure is
  rethrown.
\<close>

definition tolerated :: "thrown + content_data \<Rightarrow> bool" where
  "tolerated answer =
     (case answer of Inr existingFile \<Rightarrow> True | Inl error \<Rightarrow> thrown_status error = Some 404)"

definition blob_entry :: "file_arg \<Rightarrow> tree_entry" where
  "blob_entry file =
     \<lparr>entry_path = file_path file, entry_mode = ''100644'', entry_type = ''blob'',
      entry_content = file_content file\<rparr>"

definition tree_entry_for ::
  "GitHubApi \<Rightarrow> string \<Rightarrow> string \<Rightarrow> string \<Rightarrow> file_arg \<Rightarrow> tree_entry io" where
  "tree_entry_for github owner repo branch file =
     io_bind
       (try_catch
          (io_bind
             (remote_call (ReposGetContent owner repo (file_path file) branch)
                (\<lambda>h. repos_getContent (octokit github) h owner repo (file_path file) branch))
             (\<lambda>existingFile.
                io_return (case existingFile of File sha \<Rightarrow> Some sha | Directory items \<Rightarrow> None)))
          (\<lambda>error.
             if thrown_status error \<noteq> Some 404 then io_throw error else io_return None))
       (\<lambda>fileSha. io_return (blob_entry file))"

record push_result =
  result_success :: bool
  result_branch :: string
  result_commit_sha :: string
  result_commit_message :: string
  result_commit_url :: string
  result_files :: "string list"

text \<open>\<^verbatim>\<open>pushFiles\<close> (lines 57-152).\<close>

definition pushFiles :: "GitHubApi \<Rightarrow> json option \<Rightarrow> push_result io" where
  "pushFiles github args =
     (case PushFilesSchema_parse args of
        Inl issues \<Rightarrow> io_throw (ZodError issues)
      | Inr a \<Rightarrow>
          tryCatchAsync
            (io_bind (branchExists github (pf_owner a) (pf_repo a) (pf_branch a))
               (\<lambda>exists.
            io_bind
               (if \<not> exists then
                  io_bind (createBranch github (pf_owner a) (pf_repo a) (pf_branch a) None)
                    (\<lambda>_. io_return ())
                else io_return ())
               (\<lambda>_.
            io_bind
               (remote_call (GitGetRef (pf_owner a) (pf_repo a) (''heads/'' @ pf_branch a))
                  (\<lambda>h. git_getRef (octokit github) h (pf_owner a) (pf_repo a)
                         (''heads/'' @ pf_branch a)))
               (\<lambda>refData.
            io_bind
               (remote_call (GitGetCommit (pf_owner a) (pf_repo a) (object_sha refData))
                  (\<lambda>h. git_getCommit (octokit github) h (pf_owner a) (pf_repo a)
                         (object_sha refData)))
               (\<lambda>commitData.
            io_bind
               (promise_all
                  (map (tree_entry_for github (pf_owner a) (pf_repo a) (pf_branch a))
                     (pf_files a)))
               (\<lambda>tree.
            io_bind
               (remote_call
                  (GitCreateTree (pf_owner a) (pf_repo a) (tree_sha commitData) tree)
                  (\<lambda>h. git_createTree (octokit github) h (pf_owner a) (pf_repo a)
                         (tree_sha commitData) tree))
               (\<lambda>newTree.
            io_bind
               (remote_call
                  (GitCreateCommit (pf_owner a) (pf_repo a) (pf_message a)
                     (new_tree_sha newTree) [object_sha refData])
                  (\<lambda>h. git_createCommit (octokit github) h (pf_owner a) (pf_repo a)
                         (pf_message a) (new_tree_sha newTree) [object_sha refData]))
               (\<lambda>newCommit.
            io_bind
               (remote_call
                  (GitUpdateRef (pf_owner a) (pf_repo a) (''heads/'' @ pf_branch a)
                     (commit_sha newCommit))
                  (\<lambda>h. git_updateRef (octokit github) h (pf_owner a) (pf_repo a)
                         (''heads/'' @ pf_branch a) (commit_sha newCommit)))
               (\<lambda>updatedRef.
            io_return
              \<lparr>result_success = True,
               result_branch = pf_branch a,
               result_commit_sha = commit_sha newCommit,
               result_commit_message = pf_message a,
               result_commit_url =
                 ''https://github.com/'' @ pf_owner a @ ''/'' @ pf_repo a @ ''/commit/'' @
                 commit_sha newCommit,
               result_files = map file_path (pf_files a)\<rparr>)))))))))
            ''Failed to push files'')"

fun push_result_json :: "push_result \<Rightarrow> json" where
  "push_result_json r =
     JObj [(''success'', JBool (result_success r)),
           (''branch'', JStr (result_branch r)),
           (''commit'',
              JObj [(''sha'', JStr (result_commit_sha r)),
                    (''message'', JStr (result_commit_message r)),
                    (''url'', JStr (result_commit_url r))]),
           (''files'', JArr (map JStr (result_files r)))]"

text \<open>
  The two phases of the body of \<^verbatim>\<open>pushFiles\<close>, named: the branch-ensure step
  (lines 62-66, the same lines as 18-22 of \<^verbatim>\<open>createOrUpdateFile\<close>), which returns
  what the probe answered, and the commit steps (lines 68-150).
\<close>

definition ensureBranch :: "GitHubApi \<Rightarrow> string \<Rightarrow> string \<Rightarrow> string \<Rightarrow> bool io" where
  "ensureBranch github owner repo branch =
     io_bind (branchExists github owner repo branch)
       (\<lambda>exists.
          io_bind
            (if \<not> exists then
               io_bind (createBranch github owner repo branch None) (\<lambda>_. io_return ())
             else io_return ())
            (\<lambda>_. io_return exists))"

definition commitFiles :: "GitHubApi \<Rightarrow> push_files_args \<Rightarrow> push_result io" where
  "commitFiles github a =
     io_bind
       (remote_call (GitGetRef (pf_owner a) (pf_repo a) (''heads/'' @ pf_branch a))
          (\<lambda>h. git_getRef (octokit github) h (pf_owner a) (pf_repo a)
                 (''heads/'' @ pf_branch a)))
       (\<lambda>refData.
     io_bind
       (remote_call (GitGetCommit (pf_owner a) (pf_repo a) (object_sha refData))
          (\<lambda>h. git_getCommit (octokit github) h (pf_owner a) (pf_repo a)
                 (object_sha refData)))
       (\<lambda>commitData.
     io_bind
       (promise_all
          (map (tree_entry_for github (pf_owner a) (pf_repo a) (pf_branch a)) (pf_files a)))
       (\<lambda>tree.
     io_bind
       (remote_call (GitCreateTree (pf_owner a) (pf_repo a) (tree_sha commitData) tree)
          (\<lambda>h. git_createTree (octokit github) h (pf_owner a) (pf_repo a)
                 (tree_sha commitData) tree))
       (\<lambda>newTree.
     io_bind
       (remote_call
          (GitCreateCommit (pf_owner a) (pf_repo a) (pf_message a) (new_tree_sha newTree)
             [object_sha refData])
          (\<lambda>h. git_createCommit (octokit github) h (pf_owner a) (pf_repo a) (pf_message a)
                 (new_tree_sha newTree) [object_sha refData]))
       (\<lambda>newCommit.
     io_bind
       (remote_call
          (GitUpdateRef (pf_owner a) (pf_repo a) (''heads/'' @ pf_branch a)
             (commit_sha newCommit))
          (\<lambda>h. git_updateRef (octokit github) h (pf_owner a) (pf_repo a)
                 (''heads/'' @ pf_branch a) (commit_sha newCommit)))
       (\<lambda>updatedRef.
     io_return
       \<lparr>result_success = True,
        result_branch = pf_branch a,
        result_commit_sha = commit_sha newCommit,
        result_commit_message = pf_message a,
        result_commit_url =
          ''https://github.com/'' @ pf_owner a @ ''/'' @ pf_repo a @ ''/commit/'' @
          commit_sha newCommit,
        result_files = map file_path (pf_files a)\<rparr>))))))"

text \<open>
  The calls of the commit steps that come after the head is read: reading the head
  commit, creating the tree, creating the commit, updating the reference. (The lookup
  of a reference is issued by both phases.)
\<close>

fun commit_step :: "request \<Rightarrow> bool" where
  "commit_step (GitGetCommit owner repo sha) = True"
| "commit_step (GitCreateTree owner repo base entries) = True"
| "commit_step (GitCreateCommit owner repo message tree parents) = True"
| "commit_step (GitUpdateRef owner repo ref sha) = True"
| "commit_step q = False"

text \<open>
  Destructuring \<^verbatim>\<open>args\<close> without a schema (lines 212 and 261): undefined and null
  throw a \<^verbatim>\<open>TypeError\<close>; any other value yields its properties, undefined where it
  has none.
\<close>

definition destructure_error :: "json option \<Rightarrow> string \<Rightarrow> thrown option" where
  "destructure_error args first_key =
     (if args = None \<or> args = Some JNull then
        Some (JsError None
                (Some (''Cannot destructure property '' @ [CHR 0x27] @ first_key @ [CHR 0x27] @
                       '' of '' @ [CHR 0x27] @ ''args'' @ [CHR 0x27] @ '' as it is '' @
                       (if args = None then ''undefined'' else ''null'') @ ''.''))
                None)
      else None)"

fun repo_summary_json :: "repo_summary option \<Rightarrow> json" where
  "repo_summary_json None = JNull"
| "repo_summary_json (Some s) =
     JObj [(''name'', summary_name s),
           (''full_name'', summary_full_name s),
           (''owner'', JObj [(''login'', summary_owner_login s)])]"

text \<open>\<^verbatim>\<open>forkRepository\<close> (lines 211-255).\<close>

definition forkRepository :: "GitHubApi \<Rightarrow> json option \<Rightarrow> json io" where
  "forkRepository github args =
     (case destructure_error args ''owner'' of
        Some type_error \<Rightarrow> io_throw type_error
      | None \<Rightarrow>
          tryCatchAsync
            (io_bind
               (remote_call
                  (ReposCreateFork (property args ''owner'') (property args ''repo'')
                     (property args ''organization''))
                  (\<lambda>h. repos_createFork (octokit github) h (property args ''owner'')
                         (property args ''repo'') (property args ''organization'')))
               (\<lambda>data.
                  io_return
                    (JObj [(''id'', fork_id data),
                           (''name'', fork_name data),
                           (''full_name'', fork_full_name data),
                           (''owner'',
                              JObj [(''login'', fork_owner_login data),
                                    (''id'', fork_owner_id data),
                                    (''type'', fork_owner_type data)]),
                           (''private'', fork_private data),
                           (''html_url'', fork_html_url data),
                           (''description'', fork_description data),
                           (''fork'', fork_fork data),
                           (''created_at'', fork_created_at data),
                           (''updated_at'', fork_updated_at data),
                           (''pushed_at'', fork_pushed_at data),
                           (''default_branch'', fork_default_branch data),
                           (''parent'', repo_summary_json (fork_parent data)),
                           (''source'', repo_summary_json (fork_source data))])))
            ''Failed to fork repository'')"

fun pull_file_json :: "pull_file \<Rightarrow> json" where
  "pull_file_json f =
     JObj ([(''sha'', pull_file_sha f),
            (''filename'', pull_file_filename f),
            (''status'', pull_file_status f),
            (''additions'', pull_file_additions f),
            (''deletions'', pull_file_deletions f),
            (''changes'', pull_file_changes f),
            (''blob_url'', pull_file_blob_url f),
            (''raw_url'', pull_file_raw_url f),
            (''contents_url'', pull_file_contents_url f)] @
           (case pull_file_patch f of None \<Rightarrow> [] | Some patch \<Rightarrow> [(''patch'', patch)]))"

text \<open>\<^verbatim>\<open>getPullRequestFiles\<close> of tools/files.ts (lines 260-284).\<close>

definition getPullRequestFiles :: "GitHubApi \<Rightarrow> json option \<Rightarrow> json io" where
  "getPullRequestFiles github args =
     (case destructure_error args ''owner'' of
        Some type_error \<Rightarrow> io_throw type_error
      | None \<Rightarrow>
          tryCatchAsync
            (io_bind
               (remote_call
                  (PullsListFiles (property args ''owner'') (property args ''repo'')
                     (property args ''pull_number''))
                  (\<lambda>h. pulls_listFiles (octokit github) h (property args ''owner'')
                         (property args ''repo'') (property args ''pull_number'')))
               (\<lambda>data. io_return (JArr (map pull_file_json data))))
            ''Failed to get pull request files'')"

section \<open>The dispatcher (server.ts, the handler of tool calls)\<close>

text \<open>
  What the dispatcher takes from its environment: the runtime's \<^verbatim>\<open>JSON.parse\<close>
  and \<^verbatim>\<open>JSON.stringify\<close>, and the handlers of the tools that are not embedded here
  (\<open>other_tools f\<close> is the imported function named \<open>f\<close>).
\<close>

record runtime =
  JSON_parse :: "string \<Rightarrow> string + json"
  JSON_stringify :: "json \<Rightarrow> string"
  other_tools :: "string \<Rightarrow> json option \<Rightarrow> json io"

record content_item =
  item_type :: string
  item_text :: string

text \<open>
  The \<^verbatim>\<open>switch\<close> on the tool name (lines 1162-1277), as the list of its cases
  in order, each with the call it makes; the labels are distinct.
\<close>

definition tool_cases ::
  "runtime \<Rightarrow> GitHubApi \<Rightarrow> (string \<times> (json option \<Rightarrow> json io)) list" where
  "tool_cases rt github =
     [(''search-repositories'', other_tools rt ''searchRepositories''),
      (''create-repository'', other_tools rt ''createRepository''),
      (''update-repository'', other_tools rt ''updateRepository''),
      (''delete-repository'', other_tools rt ''deleteRepository''),
      (''create-branch'', other_tools rt ''createBranch''),
      (''list-commits'', other_tools rt ''listCommits''),
      (''list-workflows'', other_tools rt ''listWorkflows''),
      (''list-workflow-runs'', other_tools rt ''listWorkflowRuns''),
      (''trigger-workflow'', other_tools rt ''triggerWorkflow''),
      (''create-or-update-file'', other_tools rt ''createOrUpdateFile''),
      (''push-files'',
         \<lambda>parsedArgs. io_bind (pushFiles github parsedArgs) (\<lambda>r. io_return (push_result_json r))),
      (''get-file-contents'', other_tools rt ''getFileContents''),
      (''fork-repository'', forkRepository github),
      (''get-pull-request-files'', getPullRequestFiles github),
      (''list-issues'', other_tools rt ''listIssues''),
      (''get-issue'', other_tools rt ''getIssue''),
      (''create-issue'', other_tools rt ''createIssue''),
      (''update-issue'', other_tools rt ''updateIssue''),
      (''add-issue-comment'', other_tools rt ''addIssueComment''),
      (''list-pull-requests'', other_tools rt ''listPullRequests''),
      (''get-pull-request'', other_tools rt ''getPullRequest''),
      (''create-pull-request'', other_tools rt ''createPullRequest''),
      (''create-pull-request-review'', other_tools rt ''createPullRequestReview''),
      (''merge-pull-request'', other_tools rt ''mergePullRequest''),
      (''get-pull-request-status'', other_tools rt ''getPullRequestStatus''),
      (''update-pull-request-branch'', other_tools rt ''updatePullRequestBranch''),
      (''get-pull-request-comments'', other_tools rt ''getPullRequestComments''),
      (''get-pull-request-reviews'', other_tools rt ''getPullRequestReviews''),
      (''search-code'', other_tools rt ''searchCode''),
      (''search-issues'', other_tools rt ''searchIssues''),
      (''search-users'', other_tools rt ''searchUsers''),
      (''get-license-info'', \<lambda>parsedArgs. other_tools rt ''getLicenseInfo'' None),
      (''get-enterprise-stats'', \<lambda>parsedArgs. other_tools rt ''getEnterpriseStats'' None)]"

text \<open>The names of the catalog: the labels of the switch.\<close>

definition catalog :: "string list" where
  "catalog =
     [''search-repositories'', ''create-repository'', ''update-repository'',
      ''delete-repository'', ''create-branch'', ''list-commits'', ''list-workflows'',
      ''list-workflow-runs'', ''trigger-workflow'', ''create-or-update-file'', ''push-files'',
      ''get-file-contents'', ''fork-repository'', ''get-pull-request-files'', ''list-issues'',
      ''get-issue'', ''create-issue'', ''update-issue'', ''add-issue-comment'',
      ''list-pull-requests'', ''get-pull-request'', ''create-pull-request'',
      ''create-pull-request-review'', ''merge-pull-request'', ''get-pull-request-status'',
      ''update-pull-request-branch'', ''get-pull-request-comments'',
      ''get-pull-request-reviews'', ''search-code'', ''search-issues'', ''search-users'',
      ''get-license-info'', ''get-enterprise-stats'']"

text \<open>
  The first step of the handler (lines 1152-1157): arguments that arrive as a string
  are parsed as JSON text, any other value is taken as it is.
\<close>

definition parseArguments :: "runtime \<Rightarrow> json option \<Rightarrow> json option io" where
  "parseArguments rt args =
     (case args of
        Some (JStr text) \<Rightarrow>
          io_bind (safeJsonParse (JSON_parse rt) text) (\<lambda>v. io_return (Some v))
      | _ \<Rightarrow> io_return args)"

text \<open>
  The handler registered for \<^verbatim>\<open>CallToolRequestSchema\<close> (lines 1147-1298), applied
  to \<^verbatim>\<open>request.params.name\<close> and \<^verbatim>\<open>request.params.arguments\<close>.
\<close>

definition callTool ::
  "runtime \<Rightarrow> GitHubApi \<Rightarrow> string \<Rightarrow> json option \<Rightarrow> content_item list io" where
  "callTool rt github name args =
     try_catch
       (io_bind
          (parseArguments rt args)
          (\<lambda>parsedArgs.
             io_bind
               (case map_of (tool_cases rt github) name of
                  Some tool \<Rightarrow> tool parsedArgs
                | None \<Rightarrow> io_throw (McpError MethodNotFound (''Unknown tool: '' @ name)))
               (\<lambda>result.
                  io_return
                    [\<lparr>item_type = ''text'', item_text = JSON_stringify rt result\<rparr>])))
       (\<lambda>error.
          if is_McpError error then io_throw error
          else io_throw
                 (McpError InternalError
                    (''Error executing tool '' @ name @ '': '' @
                     template (thrown_message error))))"

section \<open>File content encoding (utils/error-handling.ts, lines 79-104)\<close>

text \<open>
  Where the encoding of text matters, a JavaScript string is the list of its UTF-16 code
  units and a \<^verbatim>\<open>Buffer\<close> the list of its bytes, both as natural numbers. The
  conversions of \<^verbatim>\<open>Buffer\<close> belong to the runtime (Node.js) and are modelled as
  documented.
\<close>

type_synonym js_string = "nat list"

type_synonym buffer = "nat list"

definition is_high_surrogate :: "nat \<Rightarrow> bool" where
  "is_high_surrogate u = (0xD800 \<le> u \<and> u \<le> 0xDBFF)"

definition is_low_surrogate :: "nat \<Rightarrow> bool" where
  "is_low_surrogate u = (0xDC00 \<le> u \<and> u \<le> 0xDFFF)"

text \<open>A Unicode scalar value: a code point that is not a surrogate.\<close>

definition scalar_value :: "nat \<Rightarrow> bool" where
  "scalar_value c = (c < 0x110000 \<and> \<not> (0xD800 \<le> c \<and> c \<le> 0xDFFF))"

text \<open>The UTF-8 bytes of one code point.\<close>

definition utf8_bytes :: "nat \<Rightarrow> buffer" where
  "utf8_bytes c =
     (if c < 0x80 then [c]
      else if c < 0x800 then [0xC0 + c div 64, 0x80 + c mod 64]
      else if c < 0x10000 then [0xE0 + c div 4096, 0x80 + c div 64 mod 64, 0x80 + c mod 64]
      else [0xF0 + c div 262144, 0x80 + c div 4096 mod 64, 0x80 + c div 64 mod 64,
            0x80 + c mod 64])"

text \<open>
  \<^verbatim>\<open>Buffer.from(s, 'utf-8')\<close>: a surrogate pair is one code point; a surrogate
  without its partner is written as U+FFFD.
\<close>

fun Buffer_from_utf8 :: "js_string \<Rightarrow> buffer" where
  "Buffer_from_utf8 [] = []"
| "Buffer_from_utf8 [u] =
     (if is_high_surrogate u \<or> is_low_surrogate u then utf8_bytes 0xFFFD else utf8_bytes u)"
| "Buffer_from_utf8 (u # v # us) =
     (if is_high_surrogate u then
        (if is_low_surrogate v then
           utf8_bytes (0x10000 + (u - 0xD800) * 1024 + (v - 0xDC00)) @ Buffer_from_utf8 us
         else utf8_bytes 0xFFFD @ Buffer_from_utf8 (v # us))
      else if is_low_surrogate u then utf8_bytes 0xFFFD @ Buffer_from_utf8 (v # us)
      else utf8_bytes u @ Buffer_from_utf8 (v # us))"

text \<open>
  \<^verbatim>\<open>buffer.toString('utf-8')\<close>: the code points of the well-formed sequences (shortest
  form, no surrogates, at most U+10FFFF); a byte that cannot start or continue a
  sequence ends it, and each maximal ill-formed part is read as U+FFFD.
\<close>

definition continuation :: "nat \<Rightarrow> nat \<Rightarrow> nat \<Rightarrow> bool" where
  "continuation lo hi b = (lo \<le> b \<and> b \<le> hi)"

fun utf8_code_points :: "buffer \<Rightarrow> nat list" where
  "utf8_code_points [] = []"
| "utf8_code_points (b0 # bs) =
     (if b0 < 0x80 then b0 # utf8_code_points bs
      else if 0xC2 \<le> b0 \<and> b0 \<le> 0xDF then
        (case bs of
           b1 # bs1 \<Rightarrow>
             if continuation 0x80 0xBF b1 then
               ((b0 - 0xC0) * 64 + (b1 - 0x80)) # utf8_code_points bs1
             else 0xFFFD # utf8_code_points bs
         | [] \<Rightarrow> [0xFFFD])
      else if 0xE0 \<le> b0 \<and> b0 \<le> 0xEF then
        (case bs of
           b1 # bs1 \<Rightarrow>
             if continuation (if b0 = 0xE0 then 0xA0 else 0x80)
                  (if b0 = 0xED then 0x9F else 0xBF) b1 then
               (case bs1 of
                  b2 # bs2 \<Rightarrow>
                    if continuation 0x80 0xBF b2 then
                      ((b0 - 0xE0) * 4096 + (b1 - 0x80) * 64 + (b2 - 0x80)) #
                      utf8_code_points bs2
                    else 0xFFFD # utf8_code_points bs1
                | [] \<Rightarrow> [0xFFFD])
             else 0xFFFD # utf8_code_points bs
         | [] \<Rightarrow> [0xFFFD])
      else if 0xF0 \<le> b0 \<and> b0 \<le> 0xF4 then
        (case bs of
           b1 # bs1 \<Rightarrow>
             if continuation (if b0 = 0xF0 then 0x90 else 0x80)
                  (if b0 = 0xF4 then 0x8F else 0xBF) b1 then
               (case bs1 of
                  b2 # bs2 \<Rightarrow>
                    if continuation 0x80 0xBF b2 then
                      (case bs2 of
                         b3 # bs3 \<Rightarrow>
                           if continuation 0x80 0xBF b3 then
                             ((b0 - 0xF0) * 262144 + (b1 - 0x80) * 4096 + (b2 - 0x80) * 64 +
                              (b3 - 0x80)) #
                             utf8_code_points bs3
                           else 0xFFFD # utf8_code_points bs2
                       | [] \<Rightarrow> [0xFFFD])
                    else 0xFFFD # utf8_code_points bs1
                | [] \<Rightarrow> [0xFFFD])
             else 0xFFFD # utf8_code_points bs
         | [] \<Rightarrow> [0xFFFD])
      else 0xFFFD # utf8_code_points bs)"

text \<open>The UTF-16 code units of one code point.\<close>

definition utf16_units :: "nat \<Rightarrow> js_string" where
  "utf16_units c =
     (if c < 0x10000 then [c]
      else [0xD800 + (c - 0x10000) div 1024, 0xDC00 + (c - 0x10000) mod 1024])"

definition Buffer_toString_utf8 :: "buffer \<Rightarrow> js_string" where
  "Buffer_toString_utf8 bytes = concat (map utf16_units (utf8_code_points bytes))"

text \<open>
  \<^verbatim>\<open>buffer.toString('base64')\<close>: the standard alphabet, three bytes to four
  characters, padded with \<^verbatim>\<open>=\<close> (code unit 61).
\<close>

definition base64_char :: "nat \<Rightarrow> nat" where
  "base64_char n =
     (if n < 26 then 65 + n
      else if n < 52 then 97 + (n - 26)
      else if n < 62 then 48 + (n - 52)
      else if n = 62 then 43
      else 47)"

fun Buffer_toString_base64 :: "buffer \<Rightarrow> js_string" where
  "Buffer_toString_base64 [] = []"
| "Buffer_toString_base64 [a] =
     [base64_char (a div 4), base64_char (a mod 4 * 16), 61, 61]"
| "Buffer_toString_base64 [a, b] =
     [base64_char (a div 4), base64_char (a mod 4 * 16 + b div 16),
      base64_char (b mod 16 * 4), 61]"
| "Buffer_toString_base64 (a # b # c # bs) =
     [base64_char (a div 4), base64_char (a mod 4 * 16 + b div 16),
      base64_char (b mod 16 * 4 + c div 64), base64_char (c mod 64)] @
     Buffer_toString_base64 bs"

text \<open>
  \<^verbatim>\<open>Buffer.from(s, 'base64')\<close>: decoding is lenient. It reads up to the first
  \<^verbatim>\<open>=\<close>, skips every character outside the alphabet (white space included), takes
  \<^verbatim>\<open>-\<close> and \<^verbatim>\<open>_\<close> for \<^verbatim>\<open>+\<close> and \<^verbatim>\<open>/\<close>, and drops the bits of an
  incomplete last group. A code unit above 0xFF, which Node reads by its low byte, counts
  here as outside the alphabet; the strings that \<^verbatim>\<open>toString('base64')\<close> returns
  hold none.
\<close>

definition base64_value :: "nat \<Rightarrow> nat option" where
  "base64_value u =
     (if 65 \<le> u \<and> u \<le> 90 then Some (u - 65)
      else if 97 \<le> u \<and> u \<le> 122 then Some (u - 97 + 26)
      else if 48 \<le> u \<and> u \<le> 57 then Some (u - 48 + 52)
      else if u = 43 \<or> u = 45 then Some 62
      else if u = 47 \<or> u = 95 then Some 63
      else None)"

fun sextets :: "js_string \<Rightarrow> nat list" where
  "sextets [] = []"
| "sextets (u # us) =
     (if u = 61 then []
      else (case base64_value u of None \<Rightarrow> sextets us | Some n \<Rightarrow> n # sextets us))"

fun sextet_bytes :: "nat list \<Rightarrow> buffer" where
  "sextet_bytes (s0 # s1 # s2 # s3 # ss) =
     [s0 * 4 + s1 div 16, s1 mod 16 * 16 + s2 div 4, s2 mod 4 * 64 + s3] @ sextet_bytes ss"
| "sextet_bytes [s0, s1, s2] = [s0 * 4 + s1 div 16, s1 mod 16 * 16 + s2 div 4]"
| "sextet_bytes [s0, s1] = [s0 * 4 + s1 div 16]"
| "sextet_bytes ss = []"

definition Buffer_from_base64 :: "js_string \<Rightarrow> buffer" where
  "Buffer_from_base64 s = sextet_bytes (sextets s)"

text \<open>
  \<^verbatim>\<open>base64ToUtf8\<close> (lines 79-90) and \<^verbatim>\<open>utf8ToBase64\<close> (lines 92-104). The
  conversions do not throw on a string, so the \<^verbatim>\<open>catch\<close> branches are never taken.
\<close>

definition base64ToUtf8 :: "js_string \<Rightarrow> js_string" where
  "base64ToUtf8 base64 = Buffer_toString_utf8 (Buffer_from_base64 base64)"

definition utf8ToBase64 :: "js_string \<Rightarrow> js_string" where
  "utf8ToBase64 utf8 = Buffer_toString_base64 (Buffer_from_utf8 utf8)"

text \<open>
  What \<^verbatim>\<open>createOrUpdateFile\<close> sends as the content of the file (files.ts, line 30)
  and what \<^verbatim>\<open>getFileContents\<close> returns as the content of a file it read (line 191;
  \<open>None\<close> is \<^verbatim>\<open>null\<close>, returned for missing and for empty content).
\<close>

definition written_content :: "js_string \<Rightarrow> js_string" where
  "written_content content = utf8ToBase64 content"

definition read_content :: "js_string option \<Rightarrow> js_string option" where
  "read_content data_content =
     (case data_content of
        None \<Rightarrow> None
      | Some c \<Rightarrow> if c = [] then None else Some (base64ToUtf8 c))"

text \<open>
  Well-formed text: every code unit fits 16 bits and every surrogate is half of a pair.
\<close>

fun well_formed :: "js_string \<Rightarrow> bool" where
  "well_formed [] = True"
| "well_formed [u] = (u < 0x10000 \<and> \<not> is_high_surrogate u \<and> \<not> is_low_surrogate u)"
| "well_formed (u # v # us) =
     (if is_high_surrogate u then is_low_surrogate v \<and> well_formed us
      else u < 0x10000 \<and> \<not> is_low_surrogate u \<and> well_formed (v # us))"

section \<open>A stand-in remote for the examples\<close>

text \<open>
  A remote with one repository whose default branch \<^verbatim>\<open>main\<close> has head commit
  \<^verbatim>\<open>c0\<close> with tree \<^verbatim>\<open>t0\<close> and holds the file \<^verbatim>\<open>a.txt\<close>. Any other branch
  is absent until a call has created it. New trees and commits are named \<^verbatim>\<open>t1\<close>
  and \<^verbatim>\<open>c1\<close>.
\<close>

definition not_found :: thrown where
  "not_found = JsError (Some 404) (Some ''Not Found'') None"

definition stub_fork :: fork_data where
  "stub_fork =
     \<lparr>fork_id = JNum 7, fork_name = JStr ''widgets'', fork_full_name = JStr ''me/widgets'',
      fork_owner_login = JStr ''me'', fork_owner_id = JNum 1, fork_owner_type = JStr ''User'',
      fork_private = JBool False, fork_html_url = JStr ''https://github.com/me/widgets'',
      fork_description = JNull, fork_fork = JBool True, fork_created_at = JStr ''now'',
      fork_updated_at = JStr ''now'', fork_pushed_at = JStr ''now'',
      fork_default_branch = JStr ''main'', fork_parent = None, fork_source = None\<rparr>"

definition stub_octokit :: octokit where
  "stub_octokit =
     \<lparr>git_getRef =
        (\<lambda>h owner repo ref.
           if ref = ''heads/main'' \<or>
              (\<exists>sha \<in> set [''c0'', ''c1'']. GitCreateRef owner repo (''refs/'' @ ref) sha \<in> set h)
           then Inr \<lparr>ref_name = ''refs/'' @ ref, object_sha = ''c0''\<rparr>
           else Inl not_found),
      git_createRef = (\<lambda>h owner repo ref sha. Inr \<lparr>ref_name = ref, object_sha = sha\<rparr>),
      git_getCommit = (\<lambda>h owner repo sha. Inr \<lparr>commit_sha = sha, tree_sha = ''t0''\<rparr>),
      git_createTree = (\<lambda>h owner repo base entries. Inr \<lparr>new_tree_sha = ''t1''\<rparr>),
      git_createCommit =
        (\<lambda>h owner repo message tree parents. Inr \<lparr>commit_sha = ''c1'', tree_sha = tree\<rparr>),
      git_updateRef =
        (\<lambda>h owner repo ref sha. Inr \<lparr>ref_name = ''refs/'' @ ref, object_sha = sha\<rparr>),
      repos_get = (\<lambda>h owner repo. Inr \<lparr>default_branch = ''main''\<rparr>),
      repos_getContent =
        (\<lambda>h owner repo path ref. if path = ''a.txt'' then Inr (File ''blob-a'') else Inl not_found),
      repos_createFork = (\<lambda>h owner repo organization. Inr stub_fork),
      pulls_listFiles = (\<lambda>h owner repo pull_number. Inr [])\<rparr>"

text \<open>The client configured for an enterprise endpoint.\<close>

definition stub_github :: GitHubApi where
  "stub_github = \<lparr>octokit = stub_octokit, baseUrl = Some ''https://ghe.example.com/api/v3''\<rparr>"

text \<open>
  The same remote with a failing verb: a reference lookup that fails with a server
  error, a content read that fails with a server error for every path but
  \<^verbatim>\<open>a.txt\<close>, and a reference update that is refused with a given error.
\<close>

definition failing_lookup_github :: GitHubApi where
  "failing_lookup_github =
     stub_github
       \<lparr>octokit :=
          stub_octokit
            \<lparr>git_getRef :=
               (\<lambda>h owner repo ref. Inl (JsError (Some 500) (Some ''Server Error'') None))\<rparr>\<rparr>"

definition failing_read_github :: GitHubApi where
  "failing_read_github =
     stub_github
       \<lparr>octokit :=
          stub_octokit
            \<lparr>repos_getContent :=
               (\<lambda>h owner repo path ref.
                  if path = ''a.txt'' then Inr (File ''blob-a'')
                  else Inl (JsError (Some 500) (Some ''Server Error'') None))\<rparr>\<rparr>"

definition refused_update_github :: "thrown \<Rightarrow> GitHubApi" where
  "refused_update_github error =
     stub_github
       \<lparr>octokit := stub_octokit\<lparr>git_updateRef := (\<lambda>h owner repo ref sha. Inl error)\<rparr>\<rparr>"

text \<open>
  A stand-in for the runtime. Its parser is right on the two texts the examples use, the
  empty object \<^verbatim>\<open>{}\<close> and the unfinished object \<^verbatim>\<open>{\<close>, which
  \<^verbatim>\<open>JSON.parse\<close> rejects with a syntax error; the tools that are not embedded
  return null.
\<close>

definition stub_runtime :: runtime where
  "stub_runtime =
     \<lparr>JSON_parse =
        (\<lambda>text. if text = ''{}'' then Inr (JObj []) else Inl ''Unexpected end of JSON input''),
      JSON_stringify = (\<lambda>v. ''(json)''),
      other_tools = (\<lambda>f args. io_return JNull)\<rparr>"

text \<open>
  The argument bag of the multi-file example, for a branch; as a request, and as a
  request with one more field that the schema does not declare.
\<close>

definition push_bag :: "string \<Rightarrow> (string \<times> json) list" where
  "push_bag branch =
     [(''owner'', JStr ''acme''), (''repo'', JStr ''widgets''), (''branch'', JStr branch),
      (''files'',
         JArr [JObj [(''path'', JStr ''a.txt''), (''content'', JStr ''x'')],
               JObj [(''path'', JStr ''b.txt''), (''content'', JStr ''y'')]]),
      (''message'', JStr ''M'')]"

definition push_request :: "string \<Rightarrow> json option" where
  "push_request branch = Some (JObj (push_bag branch))"

definition push_request_extra :: "string \<Rightarrow> json option" where
  "push_request_extra branch = Some (JObj (push_bag branch @ [(''per_page'', JNum 5)]))"

section \<open>Properties\<close>

lemmas io_defs = io_return_def io_throw_def io_bind_def try_catch_def remote_call_def

lemmas stub_defs =
  stub_github_def stub_octokit_def stub_runtime_def stub_fork_def not_found_def
  failing_lookup_github_def failing_read_github_def refused_update_github_def
  push_request_def
  push_request_extra_def push_bag_def

subsection \<open>Error classification\<close>

text \<open>
  C5. The classifier of the client wrapper returns an error that is already an
  \<^verbatim>\<open>McpError\<close> unchanged; any other error becomes an \<^verbatim>\<open>McpError\<close> whose code
  is Unauthorized for status 401, Forbidden for 403, NotFound for 404, InvalidParams for
  400 and 422, and InternalError for every other status and for no status.
\<close>

theorem handleApiError_classifies:
  "(is_McpError e \<longrightarrow> handleApiError e = e) \<and>
   (\<not> is_McpError e \<longrightarrow>
      (thrown_status e = Some 401 \<longrightarrow> thrown_code (handleApiError e) = Some Unauthorized) \<and>
      (thrown_status e = Some 403 \<longrightarrow> thrown_code (handleApiError e) = Some Forbidden) \<and>
      (thrown_status e = Some 404 \<longrightarrow> thrown_code (handleApiError e) = Some NotFound) \<and>
      (thrown_status e = Some 400 \<or> thrown_status e = Some 422 \<longrightarrow>
         thrown_code (handleApiError e) = Some InvalidParams) \<and>
      (thrown_status e \<notin> {Some 400, Some 401, Some 403, Some 404, Some 422} \<longrightarrow>
         thrown_code (handleApiError e) = Some InternalError))"
proof (cases e)
  case (McpError c m)
  then show ?thesis by simp
next
  case (ZodError issues)
  then show ?thesis by simp
next
  case (JsError status message response)
  show ?thesis
  proof (cases status)
    case None
    with JsError show ?thesis by (simp add: Let_def)
  next
    case (Some n)
    with JsError show ?thesis by (simp add: Let_def)
  qed
qed

theorem handleApiError_classifies_witness:
  "handleApiError (McpError Forbidden ''denied'') = McpError Forbidden ''denied'' \<and>
   thrown_code (handleApiError (JsError (Some 401) (Some ''Bad credentials'') None)) =
     Some Unauthorized \<and>
   thrown_code (handleApiError (JsError (Some 403) (Some ''Forbidden'') None)) =
     Some Forbidden \<and>
   thrown_code (handleApiError (JsError (Some 404) (Some ''Not Found'') None)) =
     Some NotFound \<and>
   thrown_code (handleApiError (JsError (Some 400) (Some ''Bad Request'') None)) =
     Some InvalidParams \<and>
   thrown_code (handleApiError (JsError (Some 422) (Some ''Validation Failed'') None)) =
     Some InvalidParams \<and>
   thrown_code (handleApiError (JsError (Some 409) (Some ''Conflict'') None)) =
     Some InternalError \<and>
   thrown_code (handleApiError (JsError None (Some ''socket hang up'') None)) =
     Some InternalError"
  using handleApiError_classifies [of "McpError Forbidden ''denied''"]
    handleApiError_classifies [of "JsError (Some 401) (Some ''Bad credentials'') None"]
    handleApiError_classifies [of "JsError (Some 403) (Some ''Forbidden'') None"]
    handleApiError_classifies [of "JsError (Some 404) (Some ''Not Found'') None"]
    handleApiError_classifies [of "JsError (Some 400) (Some ''Bad Request'') None"]
    handleApiError_classifies [of "JsError (Some 422) (Some ''Validation Failed'') None"]
    handleApiError_classifies [of "JsError (Some 409) (Some ''Conflict'') None"]
    handleApiError_classifies [of "JsError None (Some ''socket hang up'') None"]
  by simp

subsection \<open>The branch-existence probe\<close>



subsection \<open>Dispatch\<close>

lemma tool_cases_names: "map fst (tool_cases rt gh) = catalog"
  by (simp add: tool_cases_def catalog_def)

lemma unknown_tool_case: "name \<notin> set catalog \<Longrightarrow> map_of (tool_cases rt gh) name = None"
  by (metis tool_cases_names map_of_eq_None_iff set_map)

text \<open>
  C6, as the code has it. A request whose tool name is not in the catalog reaches no
  tool, so no schema and no remote call (the log is unchanged, whatever the tools and
  the client are). The error is Method Not Found, except when the arguments are a text
  that does not parse: the text is parsed before the name is looked at, and the error is
  then Invalid Parameters.
\<close>

theorem unknown_tool_dispatch:
  "name \<notin> set catalog \<Longrightarrow>
     callTool rt gh name args h =
       (case args of
          Some (JStr text) \<Rightarrow>
            (case JSON_parse rt text of
               Inl message \<Rightarrow> (Inl (McpError InvalidParams (''Invalid JSON: '' @ message)), h)
             | Inr v \<Rightarrow> (Inl (McpError MethodNotFound (''Unknown tool: '' @ name)), h))
        | _ \<Rightarrow> (Inl (McpError MethodNotFound (''Unknown tool: '' @ name)), h))"
  using unknown_tool_case [of name rt gh]
  by (auto simp add: callTool_def parseArguments_def safeJsonParse_def io_defs
      split: option.splits json.splits sum.splits)

theorem unknown_tool_dispatch_witness:
  "''no-such-tool'' \<notin> set catalog \<and>
   callTool stub_runtime stub_github ''no-such-tool'' (Some (JObj [])) [] =
     (Inl (McpError MethodNotFound ''Unknown tool: no-such-tool''), []) \<and>
   callTool stub_runtime stub_github ''no-such-tool'' (Some (JStr ''{}'')) [] =
     (Inl (McpError MethodNotFound ''Unknown tool: no-such-tool''), [])"
  using unknown_tool_dispatch [of "''no-such-tool''" stub_runtime stub_github "Some (JObj [])" "[]"]
    unknown_tool_dispatch [of "''no-such-tool''" stub_runtime stub_github "Some (JStr ''{}'')" "[]"]
  by (simp add: catalog_def stub_defs)

text \<open>
  C6 as stated fails: with the unfinished text \<^verbatim>\<open>{\<close> as arguments, a request for
  a tool that does not exist is answered with Invalid Parameters, not Method Not Found.
\<close>

theorem unknown_tool_counterexample:
  "''no-such-tool'' \<notin> set catalog \<and>
   callTool stub_runtime stub_github ''no-such-tool'' (Some (JStr ''{'')) [] =
     (Inl (McpError InvalidParams ''Invalid JSON: Unexpected end of JSON input''), [])"
  by (simp add: catalog_def callTool_def parseArguments_def safeJsonParse_def io_defs stub_defs)

subsection \<open>Validation\<close>

text \<open>
  The schema of \<^verbatim>\<open>push-files\<close> rejects a bag that lacks one of its fields, and
  \<^verbatim>\<open>pushFiles\<close> then throws before it touches the client.
\<close>

lemma z_both_Inl: "z_both (Inl e) y \<noteq> Inr v"
  by (cases y) simp_all

lemma z_both_Inl2: "z_both x (Inl e) \<noteq> Inr v"
  by (cases x) simp_all

lemma z_both_Inr: "z_both x y = Inr v \<longleftrightarrow> (\<exists>a b. x = Inr a \<and> y = Inr b \<and> v = (a, b))"
  by (cases x; cases y) auto

lemma PushFilesSchema_missing_field:
  assumes "k \<in> {''owner'', ''repo'', ''branch'', ''files'', ''message''}"
    and "property args k = None"
  shows "\<exists>issues. PushFilesSchema_parse args = Inl issues"
proof (cases "PushFilesSchema_parse args")
  case (Inl issues)
  then show ?thesis by blast
next
  case (Inr a)
  then obtain kvs where args: "args = Some (JObj kvs)"
    by (cases args rule: PushFilesSchema_parse.cases) auto
  from Inr have
    "\<exists>v. z_string_min 1 ''Repository owner is required'' [Key ''owner''] (map_of kvs ''owner'') = Inr v"
    "\<exists>v. z_string_min 1 ''Repository name is required'' [Key ''repo''] (map_of kvs ''repo'') = Inr v"
    "\<exists>v. z_string_min 1 ''Branch name is required'' [Key ''branch''] (map_of kvs ''branch'') = Inr v"
    "\<exists>v. z_array_min FileSchema_parse 1 ''At least one file is required'' [Key ''files'']
           (map_of kvs ''files'') = Inr v"
    "\<exists>v. z_string_min 1 ''Commit message is required'' [Key ''message''] (map_of kvs ''message'') = Inr v"
    unfolding args by (auto simp add: z_both_Inr split: sum.splits)
  with assms show ?thesis unfolding args by auto
qed

lemma pushFiles_invalid:
  "PushFilesSchema_parse args = Inl issues \<Longrightarrow> pushFiles gh args h = (Inl (ZodError issues), h)"
  by (simp add: pushFiles_def io_defs)

text \<open>
  C3 at the failing input. \<^verbatim>\<open>fork-repository\<close> and \<^verbatim>\<open>get-pull-request-files\<close>
  are in the catalog, and called with an empty bag they call the client, with every
  parameter undefined: \<^verbatim>\<open>forkRepository\<close> and the \<^verbatim>\<open>getPullRequestFiles\<close> of
  tools/files.ts parse no schema.
\<close>

theorem missing_fields_reach_remote:
  "''fork-repository'' \<in> set catalog \<and> ''get-pull-request-files'' \<in> set catalog \<and>
   snd (callTool stub_runtime stub_github ''fork-repository'' (Some (JObj [])) []) =
     [ReposCreateFork None None None] \<and>
   snd (callTool stub_runtime stub_github ''get-pull-request-files'' (Some (JObj [])) []) =
     [PullsListFiles None None None]"
  by (simp add: catalog_def callTool_def parseArguments_def tool_cases_def forkRepository_def
      getPullRequestFiles_def destructure_error_def tryCatchAsync_def io_defs stub_defs)

text \<open>
  The schema of \<^verbatim>\<open>push-files\<close> reads the five fields it declares and nothing else.
\<close>

lemma map_of_declared:
  "k \<in> D \<Longrightarrow> map_of (filter (\<lambda>kv. fst kv \<in> D) kvs) k = map_of kvs k"
  by (induction kvs) auto

lemma PushFilesSchema_ignores_undeclared:
  "PushFilesSchema_parse (Some (JObj kvs)) =
   PushFilesSchema_parse
     (Some (JObj (filter (\<lambda>kv. fst kv \<in> {''owner'', ''repo'', ''branch'', ''files'', ''message''})
                    kvs)))"
proof -
  let ?D = "{''owner'', ''repo'', ''branch'', ''files'', ''message''}"
  have "map_of (filter (\<lambda>kv. fst kv \<in> ?D) kvs) k = map_of kvs k" if "k \<in> ?D" for k
    using that by (rule map_of_declared)
  then have
    "map_of (filter (\<lambda>kv. fst kv \<in> ?D) kvs) ''owner'' = map_of kvs ''owner''"
    "map_of (filter (\<lambda>kv. fst kv \<in> ?D) kvs) ''repo'' = map_of kvs ''repo''"
    "map_of (filter (\<lambda>kv. fst kv \<in> ?D) kvs) ''branch'' = map_of kvs ''branch''"
    "map_of (filter (\<lambda>kv. fst kv \<in> ?D) kvs) ''files'' = map_of kvs ''files''"
    "map_of (filter (\<lambda>kv. fst kv \<in> ?D) kvs) ''message'' = map_of kvs ''message''"
    by blast+
  then show ?thesis
    by (simp only: PushFilesSchema_parse.simps)
qed

subsection \<open>Runs of the multi-file commit\<close>

lemma io_bind_return [simp]: "io_bind (io_return x) f = f x"
  by (simp add: io_defs)

lemma io_bind_assoc: "io_bind (io_bind m f) g = io_bind m (\<lambda>x. io_bind (f x) g)"
  by (auto simp add: io_defs split: prod.splits sum.splits)

lemma pushFiles_phases:
  "PushFilesSchema_parse args = Inr a \<Longrightarrow>
     pushFiles gh args =
       tryCatchAsync
         (io_bind (ensureBranch gh (pf_owner a) (pf_repo a) (pf_branch a)) (\<lambda>_. commitFiles gh a))
         ''Failed to push files''"
  by (simp add: pushFiles_def ensureBranch_def commitFiles_def io_bind_assoc)

lemma tree_entry_for_run:
  "tree_entry_for gh owner repo branch f h =
     ((case repos_getContent (octokit gh) h owner repo (file_path f) branch of
         Inl e \<Rightarrow> if thrown_status e \<noteq> Some 404 then Inl e else Inr (blob_entry f)
       | Inr d \<Rightarrow> Inr (blob_entry f)),
      h @ [ReposGetContent owner repo (file_path f) branch])"
  by (simp add: tree_entry_for_def io_defs split: sum.splits)

lemma snd_promise_all_Cons:
  "snd (promise_all (m # ms) h) = snd (promise_all ms (snd (m h)))"
  by (simp split: prod.splits sum.splits)

lemma fst_promise_all_Cons:
  "fst (promise_all (m # ms) h) =
     (case fst (m h) of
        Inl e \<Rightarrow> Inl e
      | Inr x \<Rightarrow>
          (case fst (promise_all ms (snd (m h))) of Inl e \<Rightarrow> Inl e | Inr xs \<Rightarrow> Inr (x # xs)))"
  by (simp split: prod.splits sum.splits)

lemma promise_all_log:
  "snd (promise_all (map (tree_entry_for gh owner repo branch) fs) h) =
     h @ map (\<lambda>f. ReposGetContent owner repo (file_path f) branch) fs"
proof (induction fs arbitrary: h)
  case Nil
  then show ?case by (simp add: io_return_def)
next
  case (Cons f fs)
  show ?case
    by (simp only: list.map snd_promise_all_Cons Cons.IH) (simp add: tree_entry_for_run)
qed

lemma promise_all_entries:
  "fst (promise_all (map (tree_entry_for gh owner repo branch) fs) h) = Inr tree \<Longrightarrow>
     tree = map blob_entry fs"
proof (induction fs arbitrary: h tree)
  case Nil
  then show ?case by (simp add: io_return_def)
next
  case (Cons f fs)
  let ?m = "tree_entry_for gh owner repo branch"
  from Cons.prems
  have "fst (promise_all (?m f # map ?m fs) h) = Inr tree" by simp
  then obtain x xs where x: "fst (?m f h) = Inr x"
    and xs: "fst (promise_all (map ?m fs) (snd (?m f h))) = Inr xs"
    and tree: "tree = x # xs"
    unfolding fst_promise_all_Cons by (auto split: sum.splits)
  from x have "x = blob_entry f"
    by (auto simp add: tree_entry_for_run split: sum.splits if_splits)
  moreover from xs have "xs = map blob_entry fs" by (rule Cons.IH)
  ultimately show ?case using tree by simp
qed


lemma case_promise_all:
  "(case promise_all (map (tree_entry_for gh owner repo branch) fs) h of (x, h') \<Rightarrow> F x h') =
     F (fst (promise_all (map (tree_entry_for gh owner repo branch) fs) h))
       (h @ map (\<lambda>f. ReposGetContent owner repo (file_path f) branch) fs)"
  using promise_all_log [of gh owner repo branch fs h]
  by (cases "promise_all (map (tree_entry_for gh owner repo branch) fs) h") simp

lemma commitFiles_run:
  "commitFiles gh a h =
     (case git_getRef (octokit gh) h (pf_owner a) (pf_repo a) (''heads/'' @ pf_branch a) of
        Inl e \<Rightarrow> (Inl e, h @ [GitGetRef (pf_owner a) (pf_repo a) (''heads/'' @ pf_branch a)])
      | Inr refData \<Rightarrow>
     (case git_getCommit (octokit gh)
             (h @ [GitGetRef (pf_owner a) (pf_repo a) (''heads/'' @ pf_branch a)])
             (pf_owner a) (pf_repo a) (object_sha refData) of
        Inl e \<Rightarrow>
          (Inl e,
           h @ [GitGetRef (pf_owner a) (pf_repo a) (''heads/'' @ pf_branch a),
                GitGetCommit (pf_owner a) (pf_repo a) (object_sha refData)])
      | Inr commitData \<Rightarrow>
     (case fst (promise_all
                  (map (tree_entry_for gh (pf_owner a) (pf_repo a) (pf_branch a)) (pf_files a))
                  (h @ [GitGetRef (pf_owner a) (pf_repo a) (''heads/'' @ pf_branch a),
                        GitGetCommit (pf_owner a) (pf_repo a) (object_sha refData)])) of
        Inl e \<Rightarrow>
          (Inl e,
           h @ [GitGetRef (pf_owner a) (pf_repo a) (''heads/'' @ pf_branch a),
                GitGetCommit (pf_owner a) (pf_repo a) (object_sha refData)] @
               map (\<lambda>f. ReposGetContent (pf_owner a) (pf_repo a) (file_path f) (pf_branch a))
                 (pf_files a))
      | Inr tree \<Rightarrow>
     (case git_createTree (octokit gh)
             (h @ [GitGetRef (pf_owner a) (pf_repo a) (''heads/'' @ pf_branch a),
                   GitGetCommit (pf_owner a) (pf_repo a) (object_sha refData)] @
                  map (\<lambda>f. ReposGetContent (pf_owner a) (pf_repo a) (file_path f) (pf_branch a))
                    (pf_files a))
             (pf_owner a) (pf_repo a) (tree_sha commitData) (map blob_entry (pf_files a)) of
        Inl e \<Rightarrow>
          (Inl e,
           h @ [GitGetRef (pf_owner a) (pf_repo a) (''heads/'' @ pf_branch a),
                GitGetCommit (pf_owner a) (pf_repo a) (object_sha refData)] @
               map (\<lambda>f. ReposGetContent (pf_owner a) (pf_repo a) (file_path f) (pf_branch a))
                 (pf_files a) @
               [GitCreateTree (pf_owner a) (pf_repo a) (tree_sha commitData)
                  (map blob_entry (pf_files a))])
      | Inr newTree \<Rightarrow>
     (case git_createCommit (octokit gh)
             (h @ [GitGetRef (pf_owner a) (pf_repo a) (''heads/'' @ pf_branch a),
                   GitGetCommit (pf_owner a) (pf_repo a) (object_sha refData)] @
                  map (\<lambda>f. ReposGetContent (pf_owner a) (pf_repo a) (file_path f) (pf_branch a))
                    (pf_files a) @
                  [GitCreateTree (pf_owner a) (pf_repo a) (tree_sha commitData)
                     (map blob_entry (pf_files a))])
             (pf_owner a) (pf_repo a) (pf_message a) (new_tree_sha newTree)
             [object_sha refData] of
        Inl e \<Rightarrow>
          (Inl e,
           h @ [GitGetRef (pf_owner a) (pf_repo a) (''heads/'' @ pf_branch a),
                GitGetCommit (pf_owner a) (pf_repo a) (object_sha refData)] @
               map (\<lambda>f. ReposGetContent (pf_owner a) (pf_repo a) (file_path f) (pf_branch a))
                 (pf_files a) @
               [GitCreateTree (pf_owner a) (pf_repo a) (tree_sha commitData)
                  (map blob_entry (pf_files a)),
                GitCreateCommit (pf_owner a) (pf_repo a) (pf_message a) (new_tree_sha newTree)
                  [object_sha refData]])
      | Inr newCommit \<Rightarrow>
          ((case git_updateRef (octokit gh)
                  (h @ [GitGetRef (pf_owner a) (pf_repo a) (''heads/'' @ pf_branch a),
                        GitGetCommit (pf_owner a) (pf_repo a) (object_sha refData)] @
                       map (\<lambda>f. ReposGetContent (pf_owner a) (pf_repo a) (file_path f)
                                  (pf_branch a))
                         (pf_files a) @
                       [GitCreateTree (pf_owner a) (pf_repo a) (tree_sha commitData)
                          (map blob_entry (pf_files a)),
                        GitCreateCommit (pf_owner a) (pf_repo a) (pf_message a)
                          (new_tree_sha newTree) [object_sha refData]])
                  (pf_owner a) (pf_repo a) (''heads/'' @ pf_branch a) (commit_sha newCommit) of
              Inl e \<Rightarrow> Inl e
            | Inr updatedRef \<Rightarrow>
                Inr \<lparr>result_success = True,
                     result_branch = pf_branch a,
                     result_commit_sha = commit_sha newCommit,
                     result_commit_message = pf_message a,
                     result_commit_url =
                       ''https://github.com/'' @ pf_owner a @ ''/'' @ pf_repo a @ ''/commit/'' @
                       commit_sha newCommit,
                     result_files = map file_path (pf_files a)\<rparr>),
           h @ [GitGetRef (pf_owner a) (pf_repo a) (''heads/'' @ pf_branch a),
                GitGetCommit (pf_owner a) (pf_repo a) (object_sha refData)] @
               map (\<lambda>f. ReposGetContent (pf_owner a) (pf_repo a) (file_path f) (pf_branch a))
                 (pf_files a) @
               [GitCreateTree (pf_owner a) (pf_repo a) (tree_sha commitData)
                  (map blob_entry (pf_files a)),
                GitCreateCommit (pf_owner a) (pf_repo a) (pf_message a) (new_tree_sha newTree)
                  [object_sha refData],
                GitUpdateRef (pf_owner a) (pf_repo a) (''heads/'' @ pf_branch a)
                  (commit_sha newCommit)]))))))"
  by (auto simp add: commitFiles_def io_defs case_promise_all split: sum.splits
      dest!: promise_all_entries)


lemma handleApiError_is_McpError [simp]: "is_McpError (handleApiError e)"
  by (cases e) (simp_all add: Let_def)

lemma handleApiError_idem [simp]: "handleApiError (handleApiError e) = handleApiError e"
  by (cases e) (simp_all add: Let_def)

lemma createBranch_run:
  "createBranch gh owner repo branch None h =
     (case repos_get (octokit gh) h owner repo of
        Inl e \<Rightarrow> (Inl (handleApiError e), h @ [ReposGet owner repo])
      | Inr data \<Rightarrow>
     (case git_getRef (octokit gh) (h @ [ReposGet owner repo]) owner repo
             (''heads/'' @ default_branch data) of
        Inl e \<Rightarrow>
          (Inl (handleApiError e),
           h @ [ReposGet owner repo, GitGetRef owner repo (''heads/'' @ default_branch data)])
      | Inr refData \<Rightarrow>
     (case git_createRef (octokit gh)
             (h @ [ReposGet owner repo, GitGetRef owner repo (''heads/'' @ default_branch data)])
             owner repo (''refs/heads/'' @ branch) (object_sha refData) of
        Inl e \<Rightarrow>
          (Inl (handleApiError e),
           h @ [ReposGet owner repo, GitGetRef owner repo (''heads/'' @ default_branch data),
                GitCreateRef owner repo (''refs/heads/'' @ branch) (object_sha refData)])
      | Inr created \<Rightarrow>
          (Inr created,
           h @ [ReposGet owner repo, GitGetRef owner repo (''heads/'' @ default_branch data),
                GitCreateRef owner repo (''refs/heads/'' @ branch) (object_sha refData)]))))"
  by (simp add: createBranch_def getDefaultBranch_def io_defs split: sum.splits)

lemma ensureBranch_run:
  "ensureBranch gh owner repo branch h =
     (case git_getRef (octokit gh) h owner repo (''heads/'' @ branch) of
        Inr found \<Rightarrow> (Inr True, h @ [GitGetRef owner repo (''heads/'' @ branch)])
      | Inl e \<Rightarrow>
          if thrown_status e = Some 404 then
            (case createBranch gh owner repo branch None
                    (h @ [GitGetRef owner repo (''heads/'' @ branch)]) of
               (Inl e', h') \<Rightarrow> (Inl e', h')
             | (Inr created, h') \<Rightarrow> (Inr False, h'))
          else (Inl (handleApiError e), h @ [GitGetRef owner repo (''heads/'' @ branch)]))"
  by (simp add: ensureBranch_def branchExists_def io_defs split: sum.splits prod.splits)

lemma ensureBranch_throws_McpError:
  "ensureBranch gh owner repo branch h = (Inl e, h') \<Longrightarrow> is_McpError e"
  by (auto simp add: ensureBranch_run createBranch_run split: sum.splits if_splits)

lemma pushFiles_run:
  assumes "PushFilesSchema_parse args = Inr a"
  shows "pushFiles gh args h =
           (case ensureBranch gh (pf_owner a) (pf_repo a) (pf_branch a) h of
              (Inl e, h1) \<Rightarrow> (Inl e, h1)
            | (Inr existed, h1) \<Rightarrow> tryCatchAsync (commitFiles gh a) ''Failed to push files'' h1)"
proof (cases "ensureBranch gh (pf_owner a) (pf_repo a) (pf_branch a) h")
  case (Pair r h1)
  show ?thesis
  proof (cases r)
    case (Inl e)
    with Pair have "is_McpError e" by (auto dest: ensureBranch_throws_McpError)
    with Pair Inl show ?thesis
      by (simp add: pushFiles_phases [OF assms] tryCatchAsync_def io_defs)
  next
    case (Inr existed)
    with Pair show ?thesis
      by (simp add: pushFiles_phases [OF assms] tryCatchAsync_def io_defs)
  qed
qed


lemma tryCatchAsync_Inr:
  "tryCatchAsync m msg h = (Inr x, h') \<longleftrightarrow> m h = (Inr x, h')"
  by (auto simp add: tryCatchAsync_def io_defs split: sum.splits prod.splits)

lemma commitFiles_success:
  assumes "commitFiles gh a h = (Inr res, h')"
  shows "\<exists>refData commitData newTreeSha newCommitSha.
           git_getRef (octokit gh) h (pf_owner a) (pf_repo a) (''heads/'' @ pf_branch a) =
             Inr refData \<and>
           git_getCommit (octokit gh)
             (h @ [GitGetRef (pf_owner a) (pf_repo a) (''heads/'' @ pf_branch a)])
             (pf_owner a) (pf_repo a) (object_sha refData) = Inr commitData \<and>
           h' = h @ [GitGetRef (pf_owner a) (pf_repo a) (''heads/'' @ pf_branch a),
                     GitGetCommit (pf_owner a) (pf_repo a) (object_sha refData)] @
                    map (\<lambda>f. ReposGetContent (pf_owner a) (pf_repo a) (file_path f) (pf_branch a))
                      (pf_files a) @
                    [GitCreateTree (pf_owner a) (pf_repo a) (tree_sha commitData)
                       (map blob_entry (pf_files a)),
                     GitCreateCommit (pf_owner a) (pf_repo a) (pf_message a)
                       newTreeSha [object_sha refData],
                     GitUpdateRef (pf_owner a) (pf_repo a) (''heads/'' @ pf_branch a)
                       newCommitSha] \<and>
           res = \<lparr>result_success = True,
                  result_branch = pf_branch a,
                  result_commit_sha = newCommitSha,
                  result_commit_message = pf_message a,
                  result_commit_url =
                    ''https://github.com/'' @ pf_owner a @ ''/'' @ pf_repo a @ ''/commit/'' @
                    newCommitSha,
                  result_files = map file_path (pf_files a)\<rparr>"
  using assms unfolding commitFiles_run
  by (auto split: sum.splits)

lemma pushFiles_baseUrl: "pushFiles (gh\<lparr>baseUrl := b\<rparr>) args = pushFiles gh args"
proof -
  have "branchExists (gh\<lparr>baseUrl := b\<rparr>) = branchExists gh"
    by (intro ext) (simp add: branchExists_def)
  moreover have "createBranch (gh\<lparr>baseUrl := b\<rparr>) = createBranch gh"
    by (intro ext) (simp add: createBranch_def getDefaultBranch_def)
  moreover have "tree_entry_for (gh\<lparr>baseUrl := b\<rparr>) = tree_entry_for gh"
    by (intro ext) (simp add: tree_entry_for_def)
  ultimately show ?thesis
    by (simp add: pushFiles_def cong: sum.case_cong if_cong)
qed

lemmas run_defs =
  pushFiles_def branchExists_def createBranch_def getDefaultBranch_def tree_entry_for_def
  blob_entry_def tryCatchAsync_def io_defs

lemma stub_parse:
  "PushFilesSchema_parse (push_request branch) =
     (if branch = [] then Inl [Issue [Key ''branch''] ''Branch name is required'']
      else Inr \<lparr>pf_owner = ''acme'', pf_repo = ''widgets'', pf_branch = branch,
                pf_files = [\<lparr>file_path = ''a.txt'', file_content = ''x''\<rparr>,
                            \<lparr>file_path = ''b.txt'', file_content = ''y''\<rparr>],
                pf_message = ''M''\<rparr>)"
  by (simp add: push_request_def push_bag_def)

lemma stub_push_main:
  "pushFiles stub_github (push_request ''main'') [] =
     (Inr \<lparr>result_success = True, result_branch = ''main'', result_commit_sha = ''c1'',
           result_commit_message = ''M'',
           result_commit_url = ''https://github.com/acme/widgets/commit/c1'',
           result_files = [''a.txt'', ''b.txt'']\<rparr>,
      [GitGetRef ''acme'' ''widgets'' ''heads/main'',
       GitGetRef ''acme'' ''widgets'' ''heads/main'',
       GitGetCommit ''acme'' ''widgets'' ''c0'',
       ReposGetContent ''acme'' ''widgets'' ''a.txt'' ''main'',
       ReposGetContent ''acme'' ''widgets'' ''b.txt'' ''main'',
       GitCreateTree ''acme'' ''widgets'' ''t0''
         [\<lparr>entry_path = ''a.txt'', entry_mode = ''100644'', entry_type = ''blob'',
           entry_content = ''x''\<rparr>,
          \<lparr>entry_path = ''b.txt'', entry_mode = ''100644'', entry_type = ''blob'',
           entry_content = ''y''\<rparr>],
       GitCreateCommit ''acme'' ''widgets'' ''M'' ''t1'' [''c0''],
       GitUpdateRef ''acme'' ''widgets'' ''heads/main'' ''c1''])"
  by (simp add: run_defs stub_defs)

lemma push_files_case:
  "map_of (tool_cases rt gh) ''push-files'' =
     Some (\<lambda>parsedArgs. io_bind (pushFiles gh parsedArgs) (\<lambda>r. io_return (push_result_json r)))"
  by (simp add: tool_cases_def)

lemma callTool_push_files:
  assumes "parseArguments rt args0 h = (Inr args, h)"
  shows "callTool rt gh ''push-files'' args0 h =
           (case pushFiles gh args h of
              (Inl e, h') \<Rightarrow>
                (Inl (if is_McpError e then e
                      else McpError InternalError
                             (''Error executing tool push-files: '' @
                              template (thrown_message e))), h')
            | (Inr r, h') \<Rightarrow>
                (Inr [\<lparr>item_type = ''text'',
                       item_text = JSON_stringify rt (push_result_json r)\<rparr>], h'))"
  using assms
  by (simp add: callTool_def push_files_case io_defs split: prod.splits sum.splits)

lemma parseArguments_object: "parseArguments rt (Some (JObj kvs)) h = (Inr (Some (JObj kvs)), h)"
  by (simp add: parseArguments_def io_defs)

text \<open>
  A bag that the schema of \<^verbatim>\<open>push-files\<close> rejects is answered by the dispatcher
  without any call on the client; the \<^verbatim>\<open>ZodError\<close> is not an \<^verbatim>\<open>McpError\<close>, so
  the dispatcher reports it as an internal error.
\<close>

lemma callTool_push_files_invalid:
  assumes "PushFilesSchema_parse (Some (JObj kvs)) = Inl issues"
  shows "callTool rt gh ''push-files'' (Some (JObj kvs)) h =
           (Inl (McpError InternalError
                   (''Error executing tool push-files: '' @ zod_message issues)), h)"
  by (simp add: callTool_push_files [OF parseArguments_object] pushFiles_invalid [OF assms])

lemma tree_entry_for_tolerated:
  "fst (tree_entry_for gh owner repo branch f h) = Inr x \<longleftrightarrow>
     tolerated (repos_getContent (octokit gh) h owner repo (file_path f) branch) \<and>
     x = blob_entry f"
  by (auto simp add: tree_entry_for_run tolerated_def split: sum.splits)

lemma promise_all_tolerated:
  "(\<exists>tree. fst (promise_all (map (tree_entry_for gh owner repo branch) fs) h) = Inr tree) \<longleftrightarrow>
     (\<forall>i < length fs.
        tolerated
          (repos_getContent (octokit gh)
             (h @ take i (map (\<lambda>f. ReposGetContent owner repo (file_path f) branch) fs))
             owner repo (file_path (fs ! i)) branch))"
proof (induction fs arbitrary: h)
  case Nil
  show ?case by (simp add: io_return_def)
next
  case (Cons f fs)
  let ?m = "tree_entry_for gh owner repo branch"
  let ?q = "\<lambda>f. ReposGetContent owner repo (file_path f) branch"
  have "(\<exists>tree. fst (promise_all (map ?m (f # fs)) h) = Inr tree) \<longleftrightarrow>
      (\<exists>x. fst (?m f h) = Inr x) \<and>
      (\<exists>xs. fst (promise_all (map ?m fs) (snd (?m f h))) = Inr xs)"
    by (auto simp only: list.map fst_promise_all_Cons split: sum.splits)
  also have "\<dots> \<longleftrightarrow>
      tolerated (repos_getContent (octokit gh) h owner repo (file_path f) branch) \<and>
      (\<forall>i < length fs.
        tolerated
          (repos_getContent (octokit gh) ((h @ [?q f]) @ take i (map ?q fs))
             owner repo (file_path (fs ! i)) branch))"
    by (simp add: tree_entry_for_tolerated Cons.IH) (simp add: tree_entry_for_run)
  also have "\<dots> \<longleftrightarrow>
      (\<forall>i < length (f # fs).
        tolerated
          (repos_getContent (octokit gh) (h @ take i (map ?q (f # fs)))
             owner repo (file_path ((f # fs) ! i)) branch))"
    by (auto simp add: less_Suc_eq_0_disj)
  finally show ?case .
qed


lemma z_items_length: "z_items elem p i vs = Inr xs \<Longrightarrow> length xs = length vs"
  by (induction vs arbitrary: i xs) (auto simp add: z_both_Inr split: sum.splits)

lemma PushFilesSchema_files: "PushFilesSchema_parse args = Inr a \<Longrightarrow> pf_files a \<noteq> []"
proof -
  assume parsed: "PushFilesSchema_parse args = Inr a"
  then obtain kvs where args: "args = Some (JObj kvs)"
    by (cases args rule: PushFilesSchema_parse.cases) auto
  from parsed have files:
    "z_array_min FileSchema_parse 1 ''At least one file is required'' [Key ''files'']
       (map_of kvs ''files'') = Inr (pf_files a)"
    unfolding args by (auto simp add: z_both_Inr split: sum.splits)
  then obtain vs where "map_of kvs ''files'' = Some (JArr vs)"
    by (cases "map_of kvs ''files''" rule: option.exhaust; cases "the (map_of kvs ''files'')")
       auto
  with files have "vs \<noteq> []" "z_items FileSchema_parse [Key ''files''] 0 vs = Inr (pf_files a)"
    by (auto split: if_splits sum.splits)
  then show ?thesis by (auto dest: z_items_length)
qed

lemma commitFiles_returns:
  fixes a :: push_files_args
  defines "owner \<equiv> pf_owner a" and "repo \<equiv> pf_repo a" and "branch \<equiv> pf_branch a"
    and "files \<equiv> pf_files a"
  defines "lookup \<equiv> GitGetRef owner repo (''heads/'' @ branch)"
    and "reads \<equiv> map (\<lambda>f. ReposGetContent owner repo (file_path f) branch) files"
  shows
    "commitFiles gh a h = (Inr res, h') \<longleftrightarrow>
       (\<exists>refData commitData newTree newCommit updatedRef.
          git_getRef (octokit gh) h owner repo (''heads/'' @ branch) = Inr refData \<and>
          git_getCommit (octokit gh) (h @ [lookup]) owner repo (object_sha refData) =
            Inr commitData \<and>
          (\<forall>i < length files.
             tolerated
               (repos_getContent (octokit gh)
                  (h @ [lookup, GitGetCommit owner repo (object_sha refData)] @ take i reads)
                  owner repo (file_path (files ! i)) branch)) \<and>
          git_createTree (octokit gh)
            (h @ [lookup, GitGetCommit owner repo (object_sha refData)] @ reads)
            owner repo (tree_sha commitData) (map blob_entry files) = Inr newTree \<and>
          git_createCommit (octokit gh)
            (h @ [lookup, GitGetCommit owner repo (object_sha refData)] @ reads @
               [GitCreateTree owner repo (tree_sha commitData) (map blob_entry files)])
            owner repo (pf_message a) (new_tree_sha newTree) [object_sha refData] =
            Inr newCommit \<and>
          git_updateRef (octokit gh)
            (h @ [lookup, GitGetCommit owner repo (object_sha refData)] @ reads @
               [GitCreateTree owner repo (tree_sha commitData) (map blob_entry files),
                GitCreateCommit owner repo (pf_message a) (new_tree_sha newTree)
                  [object_sha refData]])
            owner repo (''heads/'' @ branch) (commit_sha newCommit) = Inr updatedRef \<and>
          h' = h @ [lookup, GitGetCommit owner repo (object_sha refData)] @ reads @
                 [GitCreateTree owner repo (tree_sha commitData) (map blob_entry files),
                  GitCreateCommit owner repo (pf_message a) (new_tree_sha newTree)
                    [object_sha refData],
                  GitUpdateRef owner repo (''heads/'' @ branch) (commit_sha newCommit)] \<and>
          res = \<lparr>result_success = True,
                 result_branch = branch,
                 result_commit_sha = commit_sha newCommit,
                 result_commit_message = pf_message a,
                 result_commit_url =
                   ''https://github.com/'' @ owner @ ''/'' @ repo @ ''/commit/'' @
                   commit_sha newCommit,
                 result_files = map file_path files\<rparr>)"
    (is "?run \<longleftrightarrow> ?answers")
proof
  assume ?run
  then obtain refData commitData tree newTree newCommit updatedRef where
    ref: "git_getRef (octokit gh) h owner repo (''heads/'' @ branch) = Inr refData" and
    commit: "git_getCommit (octokit gh) (h @ [lookup]) owner repo (object_sha refData) =
            Inr commitData" and
    tree: "fst (promise_all (map (tree_entry_for gh owner repo branch) files)
            (h @ [lookup, GitGetCommit owner repo (object_sha refData)])) = Inr tree" and
    rest: "git_createTree (octokit gh)
            (h @ [lookup, GitGetCommit owner repo (object_sha refData)] @ reads)
            owner repo (tree_sha commitData) (map blob_entry files) = Inr newTree"
          "git_createCommit (octokit gh)
            (h @ [lookup, GitGetCommit owner repo (object_sha refData)] @ reads @
               [GitCreateTree owner repo (tree_sha commitData) (map blob_entry files)])
            owner repo (pf_message a) (new_tree_sha newTree) [object_sha refData] =
            Inr newCommit"
          "git_updateRef (octokit gh)
            (h @ [lookup, GitGetCommit owner repo (object_sha refData)] @ reads @
               [GitCreateTree owner repo (tree_sha commitData) (map blob_entry files),
                GitCreateCommit owner repo (pf_message a) (new_tree_sha newTree)
                  [object_sha refData]])
            owner repo (''heads/'' @ branch) (commit_sha newCommit) = Inr updatedRef"
          "h' = h @ [lookup, GitGetCommit owner repo (object_sha refData)] @ reads @
                 [GitCreateTree owner repo (tree_sha commitData) (map blob_entry files),
                  GitCreateCommit owner repo (pf_message a) (new_tree_sha newTree)
                    [object_sha refData],
                  GitUpdateRef owner repo (''heads/'' @ branch) (commit_sha newCommit)]"
          "res = \<lparr>result_success = True,
                 result_branch = branch,
                 result_commit_sha = commit_sha newCommit,
                 result_commit_message = pf_message a,
                 result_commit_url =
                   ''https://github.com/'' @ owner @ ''/'' @ repo @ ''/commit/'' @
                   commit_sha newCommit,
                 result_files = map file_path files\<rparr>"
    unfolding commitFiles_run owner_def repo_def branch_def files_def lookup_def reads_def
    by (auto split: sum.splits)
  from tree have "\<forall>i < length files.
             tolerated
               (repos_getContent (octokit gh)
                  (h @ [lookup, GitGetCommit owner repo (object_sha refData)] @ take i reads)
                  owner repo (file_path (files ! i)) branch)"
    unfolding reads_def
    using promise_all_tolerated [of gh owner repo branch files
        "h @ [lookup, GitGetCommit owner repo (object_sha refData)]"]
    by auto
  with ref commit rest show ?answers by blast
next
  assume ?answers
  then obtain refData commitData newTree newCommit updatedRef where
    ref: "git_getRef (octokit gh) h owner repo (''heads/'' @ branch) = Inr refData" and
    commit: "git_getCommit (octokit gh) (h @ [lookup]) owner repo (object_sha refData) =
            Inr commitData" and
    reads: "\<forall>i < length files.
             tolerated
               (repos_getContent (octokit gh)
                  (h @ [lookup, GitGetCommit owner repo (object_sha refData)] @ take i reads)
                  owner repo (file_path (files ! i)) branch)" and
    rest: "git_createTree (octokit gh)
            (h @ [lookup, GitGetCommit owner repo (object_sha refData)] @ reads)
            owner repo (tree_sha commitData) (map blob_entry files) = Inr newTree"
          "git_createCommit (octokit gh)
            (h @ [lookup, GitGetCommit owner repo (object_sha refData)] @ reads @
               [GitCreateTree owner repo (tree_sha commitData) (map blob_entry files)])
            owner repo (pf_message a) (new_tree_sha newTree) [object_sha refData] =
            Inr newCommit"
          "git_updateRef (octokit gh)
            (h @ [lookup, GitGetCommit owner repo (object_sha refData)] @ reads @
               [GitCreateTree owner repo (tree_sha commitData) (map blob_entry files),
                GitCreateCommit owner repo (pf_message a) (new_tree_sha newTree)
                  [object_sha refData]])
            owner repo (''heads/'' @ branch) (commit_sha newCommit) = Inr updatedRef"
          "h' = h @ [lookup, GitGetCommit owner repo (object_sha refData)] @ reads @
                 [GitCreateTree owner repo (tree_sha commitData) (map blob_entry files),
                  GitCreateCommit owner repo (pf_message a) (new_tree_sha newTree)
                    [object_sha refData],
                  GitUpdateRef owner repo (''heads/'' @ branch) (commit_sha newCommit)]"
          "res = \<lparr>result_success = True,
                 result_branch = branch,
                 result_commit_sha = commit_sha newCommit,
                 result_commit_message = pf_message a,
                 result_commit_url =
                   ''https://github.com/'' @ owner @ ''/'' @ repo @ ''/commit/'' @
                   commit_sha newCommit,
                 result_files = map file_path files\<rparr>"
    by blast
  from reads obtain tree where
    "fst (promise_all (map (tree_entry_for gh owner repo branch) files)
            (h @ [lookup, GitGetCommit owner repo (object_sha refData)])) = Inr tree"
    unfolding reads_def
    using promise_all_tolerated [of gh owner repo branch files
        "h @ [lookup, GitGetCommit owner repo (object_sha refData)]"]
    by auto
  moreover from this have "tree = map blob_entry files" by (rule promise_all_entries)
  ultimately have tree:
    "fst (promise_all (map (tree_entry_for gh owner repo branch) files)
            (h @ [lookup, GitGetCommit owner repo (object_sha refData)])) =
       Inr (map blob_entry files)" by simp
  from ref commit tree rest show ?run
    unfolding commitFiles_run owner_def repo_def branch_def files_def lookup_def reads_def
    by simp
qed


lemma stub_parse_main:
  "PushFilesSchema_parse (push_request ''main'') =
     Inr \<lparr>pf_owner = ''acme'', pf_repo = ''widgets'', pf_branch = ''main'',
          pf_files = [\<lparr>file_path = ''a.txt'', file_content = ''x''\<rparr>,
                      \<lparr>file_path = ''b.txt'', file_content = ''y''\<rparr>],
          pf_message = ''M''\<rparr>"
  by (simp add: stub_parse)

lemma stub_push_failing_read:
  "pushFiles failing_read_github (push_request ''main'') [] =
     (Inl (McpError InternalError ''Failed to push files: Server Error''),
      [GitGetRef ''acme'' ''widgets'' ''heads/main'',
       GitGetRef ''acme'' ''widgets'' ''heads/main'',
       GitGetCommit ''acme'' ''widgets'' ''c0'',
       ReposGetContent ''acme'' ''widgets'' ''a.txt'' ''main'',
       ReposGetContent ''acme'' ''widgets'' ''b.txt'' ''main''])"
  by (simp add: run_defs stub_defs)

text \<open>
  C1, as the code has it. Let the schema accept the arguments and the probe find the
  branch. Then the run returns a result exactly when the remote answers: the lookup of
  \<^verbatim>\<open>heads/<branch>\<close>, issued a second time after the probe, with the head commit
  C0; the read of commit C0 with its tree T0; the read of the content of each input path
  on the branch, in input order, with content or with a failure of status 404; the
  creation of a tree with base T0 and one blob entry per input file, in input order, with
  the new tree; the creation of a commit with that tree and the single parent C0 with the
  new commit; and the update of \<^verbatim>\<open>heads/<branch>\<close> to the sha of that new commit.
  These calls, in this order, are then exactly the calls of the run, and the result names
  the new commit and the input paths in input order. The file list is not empty. When a
  content read fails with anything but status 404, the run throws after the content
  reads: no tree, no commit and no update of the reference is issued.
\<close>

theorem pushFiles_calls:
  fixes a :: push_files_args
  defines "owner \<equiv> pf_owner a" and "repo \<equiv> pf_repo a" and "branch \<equiv> pf_branch a"
    and "files \<equiv> pf_files a"
  defines "lookup \<equiv> GitGetRef owner repo (''heads/'' @ branch)"
    and "reads \<equiv> map (\<lambda>f. ReposGetContent owner repo (file_path f) branch) files"
  assumes "PushFilesSchema_parse args = Inr a"
    and "git_getRef (octokit gh) h owner repo (''heads/'' @ branch) = Inr found"
  shows
    "(pushFiles gh args h = (Inr res, h') \<longleftrightarrow>
       (\<exists>refData commitData newTree newCommit updatedRef.
          git_getRef (octokit gh) (h @ [lookup]) owner repo (''heads/'' @ branch) =
            Inr refData \<and>
          git_getCommit (octokit gh) (h @ [lookup, lookup]) owner repo (object_sha refData) =
            Inr commitData \<and>
          (\<forall>i < length files.
             tolerated
               (repos_getContent (octokit gh)
                  (h @ [lookup, lookup, GitGetCommit owner repo (object_sha refData)] @
                     take i reads)
                  owner repo (file_path (files ! i)) branch)) \<and>
          git_createTree (octokit gh)
            (h @ [lookup, lookup, GitGetCommit owner repo (object_sha refData)] @ reads)
            owner repo (tree_sha commitData) (map blob_entry files) = Inr newTree \<and>
          git_createCommit (octokit gh)
            (h @ [lookup, lookup, GitGetCommit owner repo (object_sha refData)] @ reads @
               [GitCreateTree owner repo (tree_sha commitData) (map blob_entry files)])
            owner repo (pf_message a) (new_tree_sha newTree) [object_sha refData] =
            Inr newCommit \<and>
          git_updateRef (octokit gh)
            (h @ [lookup, lookup, GitGetCommit owner repo (object_sha refData)] @ reads @
               [GitCreateTree owner repo (tree_sha commitData) (map blob_entry files),
                GitCreateCommit owner repo (pf_message a) (new_tree_sha newTree)
                  [object_sha refData]])
            owner repo (''heads/'' @ branch) (commit_sha newCommit) = Inr updatedRef \<and>
          h' = h @ [lookup, lookup, GitGetCommit owner repo (object_sha refData)] @ reads @
                 [GitCreateTree owner repo (tree_sha commitData) (map blob_entry files),
                  GitCreateCommit owner repo (pf_message a) (new_tree_sha newTree)
                    [object_sha refData],
                  GitUpdateRef owner repo (''heads/'' @ branch) (commit_sha newCommit)] \<and>
          res = \<lparr>result_success = True,
                 result_branch = branch,
                 result_commit_sha = commit_sha newCommit,
                 result_commit_message = pf_message a,
                 result_commit_url =
                   ''https://github.com/'' @ owner @ ''/'' @ repo @ ''/commit/'' @
                   commit_sha newCommit,
                 result_files = map file_path files\<rparr>)) \<and>
     files \<noteq> [] \<and>
     (\<forall>refData commitData i.
        git_getRef (octokit gh) (h @ [lookup]) owner repo (''heads/'' @ branch) = Inr refData \<and>
        git_getCommit (octokit gh) (h @ [lookup, lookup]) owner repo (object_sha refData) =
          Inr commitData \<and>
        i < length files \<and>
        \<not> tolerated
             (repos_getContent (octokit gh)
                (h @ [lookup, lookup, GitGetCommit owner repo (object_sha refData)] @
                   take i reads)
                owner repo (file_path (files ! i)) branch) \<longrightarrow>
        (\<exists>e. pushFiles gh args h =
               (Inl e,
                h @ [lookup, lookup, GitGetCommit owner repo (object_sha refData)] @ reads)))"
proof (intro conjI allI impI)
  have ensured: "ensureBranch gh (pf_owner a) (pf_repo a) (pf_branch a) h = (Inr True, h @ [lookup])"
    using assms(8) by (simp add: ensureBranch_run owner_def repo_def branch_def lookup_def)
  then have run: "pushFiles gh args h =
      tryCatchAsync (commitFiles gh a) ''Failed to push files'' (h @ [lookup])"
    by (simp add: pushFiles_run [OF assms(7)])
  show "pushFiles gh args h = (Inr res, h') \<longleftrightarrow>
       (\<exists>refData commitData newTree newCommit updatedRef.
          git_getRef (octokit gh) (h @ [lookup]) owner repo (''heads/'' @ branch) =
            Inr refData \<and>
          git_getCommit (octokit gh) (h @ [lookup, lookup]) owner repo (object_sha refData) =
            Inr commitData \<and>
          (\<forall>i < length files.
             tolerated
               (repos_getContent (octokit gh)
                  (h @ [lookup, lookup, GitGetCommit owner repo (object_sha refData)] @
                     take i reads)
                  owner repo (file_path (files ! i)) branch)) \<and>
          git_createTree (octokit gh)
            (h @ [lookup, lookup, GitGetCommit owner repo (object_sha refData)] @ reads)
            owner repo (tree_sha commitData) (map blob_entry files) = Inr newTree \<and>
          git_createCommit (octokit gh)
            (h @ [lookup, lookup, GitGetCommit owner repo (object_sha refData)] @ reads @
               [GitCreateTree owner repo (tree_sha commitData) (map blob_entry files)])
            owner repo (pf_message a) (new_tree_sha newTree) [object_sha refData] =
            Inr newCommit \<and>
          git_updateRef (octokit gh)
            (h @ [lookup, lookup, GitGetCommit owner repo (object_sha refData)] @ reads @
               [GitCreateTree owner repo (tree_sha commitData) (map blob_entry files),
                GitCreateCommit owner repo (pf_message a) (new_tree_sha newTree)
                  [object_sha refData]])
            owner repo (''heads/'' @ branch) (commit_sha newCommit) = Inr updatedRef \<and>
          h' = h @ [lookup, lookup, GitGetCommit owner repo (object_sha refData)] @ reads @
                 [GitCreateTree owner repo (tree_sha commitData) (map blob_entry files),
                  GitCreateCommit owner repo (pf_message a) (new_tree_sha newTree)
                    [object_sha refData],
                  GitUpdateRef owner repo (''heads/'' @ branch) (commit_sha newCommit)] \<and>
          res = \<lparr>result_success = True,
                 result_branch = branch,
                 result_commit_sha = commit_sha newCommit,
                 result_commit_message = pf_message a,
                 result_commit_url =
                   ''https://github.com/'' @ owner @ ''/'' @ repo @ ''/commit/'' @
                   commit_sha newCommit,
                 result_files = map file_path files\<rparr>)"
    unfolding run tryCatchAsync_Inr commitFiles_returns
    unfolding owner_def repo_def branch_def files_def lookup_def reads_def
    by simp
next
  show "files \<noteq> []"
    unfolding files_def using assms(7) by (rule PushFilesSchema_files)
next
  fix refData commitData i
  assume fails:
    "git_getRef (octokit gh) (h @ [lookup]) owner repo (''heads/'' @ branch) = Inr refData \<and>
     git_getCommit (octokit gh) (h @ [lookup, lookup]) owner repo (object_sha refData) =
       Inr commitData \<and>
     i < length files \<and>
     \<not> tolerated
          (repos_getContent (octokit gh)
             (h @ [lookup, lookup, GitGetCommit owner repo (object_sha refData)] @
                take i reads)
             owner repo (file_path (files ! i)) branch)"
  have ensured: "ensureBranch gh (pf_owner a) (pf_repo a) (pf_branch a) h = (Inr True, h @ [lookup])"
    using assms(8) by (simp add: ensureBranch_run owner_def repo_def branch_def lookup_def)
  then have run: "pushFiles gh args h =
      tryCatchAsync (commitFiles gh a) ''Failed to push files'' (h @ [lookup])"
    by (simp add: pushFiles_run [OF assms(7)])
  from fails
  have "\<not> (\<exists>tree. fst (promise_all (map (tree_entry_for gh owner repo branch) files)
            (h @ [lookup, lookup, GitGetCommit owner repo (object_sha refData)])) = Inr tree)"
    unfolding promise_all_tolerated reads_def by auto
  then obtain e where
    "fst (promise_all (map (tree_entry_for gh owner repo branch) files)
            (h @ [lookup, lookup, GitGetCommit owner repo (object_sha refData)])) = Inl e"
    by (cases "fst (promise_all (map (tree_entry_for gh owner repo branch) files)
            (h @ [lookup, lookup, GitGetCommit owner repo (object_sha refData)]))") auto
  with fails
  have "commitFiles gh a (h @ [lookup]) =
      (Inl e, h @ [lookup, lookup, GitGetCommit owner repo (object_sha refData)] @ reads)"
    unfolding commitFiles_run owner_def repo_def branch_def files_def lookup_def reads_def
    by simp
  then show "\<exists>e. pushFiles gh args h =
               (Inl e,
                h @ [lookup, lookup, GitGetCommit owner repo (object_sha refData)] @ reads)"
    unfolding run by (simp add: tryCatchAsync_def io_defs)
qed


theorem pushFiles_calls_witness:
  "git_getRef (octokit stub_github) [] ''acme'' ''widgets'' ''heads/main'' =
     Inr \<lparr>ref_name = ''refs/heads/main'', object_sha = ''c0''\<rparr> \<and>
   git_createTree (octokit stub_github)
     [GitGetRef ''acme'' ''widgets'' ''heads/main'',
      GitGetRef ''acme'' ''widgets'' ''heads/main'',
      GitGetCommit ''acme'' ''widgets'' ''c0'',
      ReposGetContent ''acme'' ''widgets'' ''a.txt'' ''main'',
      ReposGetContent ''acme'' ''widgets'' ''b.txt'' ''main'']
     ''acme'' ''widgets'' ''t0''
     [blob_entry \<lparr>file_path = ''a.txt'', file_content = ''x''\<rparr>,
      blob_entry \<lparr>file_path = ''b.txt'', file_content = ''y''\<rparr>] =
     Inr \<lparr>new_tree_sha = ''t1''\<rparr> \<and>
   git_createCommit (octokit stub_github)
     [GitGetRef ''acme'' ''widgets'' ''heads/main'',
      GitGetRef ''acme'' ''widgets'' ''heads/main'',
      GitGetCommit ''acme'' ''widgets'' ''c0'',
      ReposGetContent ''acme'' ''widgets'' ''a.txt'' ''main'',
      ReposGetContent ''acme'' ''widgets'' ''b.txt'' ''main'',
      GitCreateTree ''acme'' ''widgets'' ''t0''
        [blob_entry \<lparr>file_path = ''a.txt'', file_content = ''x''\<rparr>,
         blob_entry \<lparr>file_path = ''b.txt'', file_content = ''y''\<rparr>]]
     ''acme'' ''widgets'' ''M'' ''t1'' [''c0''] =
     Inr \<lparr>commit_sha = ''c1'', tree_sha = ''t1''\<rparr> \<and>
   pushFiles stub_github (push_request ''main'') [] =
     (Inr \<lparr>result_success = True, result_branch = ''main'', result_commit_sha = ''c1'',
           result_commit_message = ''M'',
           result_commit_url = ''https://github.com/acme/widgets/commit/c1'',
           result_files = [''a.txt'', ''b.txt'']\<rparr>,
      [GitGetRef ''acme'' ''widgets'' ''heads/main'',
       GitGetRef ''acme'' ''widgets'' ''heads/main'',
       GitGetCommit ''acme'' ''widgets'' ''c0'',
       ReposGetContent ''acme'' ''widgets'' ''a.txt'' ''main'',
       ReposGetContent ''acme'' ''widgets'' ''b.txt'' ''main'',
       GitCreateTree ''acme'' ''widgets'' ''t0''
         [blob_entry \<lparr>file_path = ''a.txt'', file_content = ''x''\<rparr>,
          blob_entry \<lparr>file_path = ''b.txt'', file_content = ''y''\<rparr>],
       GitCreateCommit ''acme'' ''widgets'' ''M'' ''t1'' [''c0''],
       GitUpdateRef ''acme'' ''widgets'' ''heads/main'' ''c1'']) \<and>
   \<not> tolerated
       (repos_getContent (octokit failing_read_github)
          [GitGetRef ''acme'' ''widgets'' ''heads/main'',
           GitGetRef ''acme'' ''widgets'' ''heads/main'',
           GitGetCommit ''acme'' ''widgets'' ''c0'',
           ReposGetContent ''acme'' ''widgets'' ''a.txt'' ''main'']
          ''acme'' ''widgets'' ''b.txt'' ''main'') \<and>
   pushFiles failing_read_github (push_request ''main'') [] =
     (Inl (McpError InternalError ''Failed to push files: Server Error''),
      [GitGetRef ''acme'' ''widgets'' ''heads/main'',
       GitGetRef ''acme'' ''widgets'' ''heads/main'',
       GitGetCommit ''acme'' ''widgets'' ''c0'',
       ReposGetContent ''acme'' ''widgets'' ''a.txt'' ''main'',
       ReposGetContent ''acme'' ''widgets'' ''b.txt'' ''main''])"
proof -
  let ?found = "\<lparr>ref_name = ''refs/heads/main'', object_sha = ''c0''\<rparr>"
  have found: "git_getRef (octokit stub_github) [] ''acme'' ''widgets'' ''heads/main'' =
     Inr ?found"
    by (simp add: stub_defs)
  have found': "git_getRef (octokit failing_read_github) [] ''acme'' ''widgets'' ''heads/main'' =
     Inr ?found"
    by (simp add: stub_defs)
  note ok = pushFiles_calls [OF stub_parse_main, where gh = stub_github and h = "[]"
      and found = ?found, simplified, OF found]
  note bad = pushFiles_calls [OF stub_parse_main, where gh = failing_read_github and h = "[]"
      and found = ?found, simplified, OF found']
  have answers:
    "git_createTree (octokit stub_github)
     [GitGetRef ''acme'' ''widgets'' ''heads/main'',
      GitGetRef ''acme'' ''widgets'' ''heads/main'',
      GitGetCommit ''acme'' ''widgets'' ''c0'',
      ReposGetContent ''acme'' ''widgets'' ''a.txt'' ''main'',
      ReposGetContent ''acme'' ''widgets'' ''b.txt'' ''main'']
     ''acme'' ''widgets'' ''t0''
     [blob_entry \<lparr>file_path = ''a.txt'', file_content = ''x''\<rparr>,
      blob_entry \<lparr>file_path = ''b.txt'', file_content = ''y''\<rparr>] =
     Inr \<lparr>new_tree_sha = ''t1''\<rparr>"
    "git_createCommit (octokit stub_github)
     [GitGetRef ''acme'' ''widgets'' ''heads/main'',
      GitGetRef ''acme'' ''widgets'' ''heads/main'',
      GitGetCommit ''acme'' ''widgets'' ''c0'',
      ReposGetContent ''acme'' ''widgets'' ''a.txt'' ''main'',
      ReposGetContent ''acme'' ''widgets'' ''b.txt'' ''main'',
      GitCreateTree ''acme'' ''widgets'' ''t0''
        [blob_entry \<lparr>file_path = ''a.txt'', file_content = ''x''\<rparr>,
         blob_entry \<lparr>file_path = ''b.txt'', file_content = ''y''\<rparr>]]
     ''acme'' ''widgets'' ''M'' ''t1'' [''c0''] =
     Inr \<lparr>commit_sha = ''c1'', tree_sha = ''t1''\<rparr>"
    "\<not> tolerated
       (repos_getContent (octokit failing_read_github)
          [GitGetRef ''acme'' ''widgets'' ''heads/main'',
           GitGetRef ''acme'' ''widgets'' ''heads/main'',
           GitGetCommit ''acme'' ''widgets'' ''c0'',
           ReposGetContent ''acme'' ''widgets'' ''a.txt'' ''main'']
          ''acme'' ''widgets'' ''b.txt'' ''main'')"
    by (simp_all add: stub_defs tolerated_def)
  from ok bad show ?thesis
    by (intro conjI)
       (rule found answers | simp add: stub_push_main stub_push_failing_read blob_entry_def)+
qed

text \<open>
  C1 as stated fails: on the existing branch \<^verbatim>\<open>main\<close>, pushing \<^verbatim>\<open>a.txt\<close> and
  \<^verbatim>\<open>b.txt\<close> reads the content of both paths before the tree is created, and looks
  the branch up twice.
\<close>

theorem pushFiles_probes_counterexample:
  "snd (pushFiles stub_github (push_request ''main'') []) =
     [GitGetRef ''acme'' ''widgets'' ''heads/main'',
      GitGetRef ''acme'' ''widgets'' ''heads/main'',
      GitGetCommit ''acme'' ''widgets'' ''c0'',
      ReposGetContent ''acme'' ''widgets'' ''a.txt'' ''main'',
      ReposGetContent ''acme'' ''widgets'' ''b.txt'' ''main'',
      GitCreateTree ''acme'' ''widgets'' ''t0''
        [\<lparr>entry_path = ''a.txt'', entry_mode = ''100644'', entry_type = ''blob'',
          entry_content = ''x''\<rparr>,
         \<lparr>entry_path = ''b.txt'', entry_mode = ''100644'', entry_type = ''blob'',
          entry_content = ''y''\<rparr>],
      GitCreateCommit ''acme'' ''widgets'' ''M'' ''t1'' [''c0''],
      GitUpdateRef ''acme'' ''widgets'' ''heads/main'' ''c1'']"
  by (simp add: stub_push_main)

text \<open>
  C2 at the failing input. The bag of the example with the undeclared field
  \<^verbatim>\<open>per_page\<close> added is parsed to the same arguments as the bag without it, and the
  dispatcher answers both requests alike, with a success.
\<close>

theorem undeclared_field_accepted:
  "PushFilesSchema_parse (push_request_extra ''main'') =
     PushFilesSchema_parse (push_request ''main'') \<and>
   callTool stub_runtime stub_github ''push-files'' (push_request_extra ''main'') [] =
     callTool stub_runtime stub_github ''push-files'' (push_request ''main'') [] \<and>
   fst (callTool stub_runtime stub_github ''push-files'' (push_request_extra ''main'') []) =
     Inr [\<lparr>item_type = ''text'', item_text = ''(json)''\<rparr>]"
proof -
  have parse: "PushFilesSchema_parse (push_request_extra ''main'') =
     PushFilesSchema_parse (push_request ''main'')"
    by (simp add: push_request_extra_def push_request_def push_bag_def)
  then have same: "pushFiles stub_github (push_request_extra ''main'') =
     pushFiles stub_github (push_request ''main'')"
    by (simp add: pushFiles_def)
  have "callTool stub_runtime stub_github ''push-files'' (push_request_extra ''main'') [] =
      (Inr [\<lparr>item_type = ''text'', item_text = ''(json)''\<rparr>],
       snd (pushFiles stub_github (push_request ''main'') []))"
    unfolding push_request_extra_def
    by (subst callTool_push_files [OF parseArguments_object])
       (simp add: same [unfolded push_request_extra_def] stub_push_main stub_runtime_def)
  moreover
  have "callTool stub_runtime stub_github ''push-files'' (push_request ''main'') [] =
      (Inr [\<lparr>item_type = ''text'', item_text = ''(json)''\<rparr>],
       snd (pushFiles stub_github (push_request ''main'') []))"
    unfolding push_request_def
    by (subst callTool_push_files [OF parseArguments_object])
       (simp add: stub_push_main [unfolded push_request_def] stub_runtime_def)
  ultimately show ?thesis using parse by simp
qed

text \<open>
  C10. The commit URL of a successful \<^verbatim>\<open>pushFiles\<close> is
  \<^verbatim>\<open>https://github.com/<owner>/<repo>/commit/<sha>\<close>, whatever base URL the client
  was configured with.
\<close>

theorem commit_url_fixed_host:
  assumes "PushFilesSchema_parse args = Inr a"
    and "pushFiles (gh\<lparr>baseUrl := b\<rparr>) args h = (Inr res, h')"
  shows "result_commit_url res =
           ''https://github.com/'' @ pf_owner a @ ''/'' @ pf_repo a @ ''/commit/'' @
           result_commit_sha res"
proof -
  from assms(2) have run: "pushFiles gh args h = (Inr res, h')"
    by (simp add: pushFiles_baseUrl)
  obtain r h1 where ens: "ensureBranch gh (pf_owner a) (pf_repo a) (pf_branch a) h = (r, h1)"
    by (cases "ensureBranch gh (pf_owner a) (pf_repo a) (pf_branch a) h")
  with run have "commitFiles gh a h1 = (Inr res, h')"
    by (cases r) (simp_all add: pushFiles_run [OF assms(1)] tryCatchAsync_Inr)
  from commitFiles_success [OF this] show ?thesis by auto
qed

theorem commit_url_fixed_host_witness:
  "baseUrl stub_github = Some ''https://ghe.example.com/api/v3'' \<and>
   PushFilesSchema_parse (push_request ''main'') =
     Inr \<lparr>pf_owner = ''acme'', pf_repo = ''widgets'', pf_branch = ''main'',
          pf_files = [\<lparr>file_path = ''a.txt'', file_content = ''x''\<rparr>,
                      \<lparr>file_path = ''b.txt'', file_content = ''y''\<rparr>],
          pf_message = ''M''\<rparr> \<and>
   fst (pushFiles stub_github (push_request ''main'') []) =
     Inr \<lparr>result_success = True, result_branch = ''main'', result_commit_sha = ''c1'',
          result_commit_message = ''M'',
          result_commit_url = ''https://github.com/acme/widgets/commit/c1'',
          result_files = [''a.txt'', ''b.txt'']\<rparr>"
proof -
  let ?res = "\<lparr>result_success = True, result_branch = ''main'', result_commit_sha = ''c1'',
           result_commit_message = ''M'',
           result_commit_url = ''https://github.com/acme/widgets/commit/c1'',
           result_files = [''a.txt'', ''b.txt'']\<rparr>"
  have same: "stub_github\<lparr>baseUrl := Some ''https://ghe.example.com/api/v3''\<rparr> = stub_github"
    by (simp add: stub_github_def)
  have parse: "PushFilesSchema_parse (push_request ''main'') =
      Inr \<lparr>pf_owner = ''acme'', pf_repo = ''widgets'', pf_branch = ''main'',
                pf_files = [\<lparr>file_path = ''a.txt'', file_content = ''x''\<rparr>,
                            \<lparr>file_path = ''b.txt'', file_content = ''y''\<rparr>],
                pf_message = ''M''\<rparr>"
    by (simp add: stub_parse)
  from commit_url_fixed_host [OF parse, where gh = stub_github
      and b = "Some ''https://ghe.example.com/api/v3''" and h = "[]" and res = ?res]
    stub_push_main
  have "result_commit_url ?res = ''https://github.com/acme/widgets/commit/c1''"
    by (simp add: same)
  with stub_push_main parse show ?thesis
    by (simp add: stub_github_def)
qed

subsection \<open>Failure of the reference update\<close>

lemma snd_tryCatchAsync: "snd (tryCatchAsync m msg h) = snd (m h)"
  by (simp add: tryCatchAsync_def io_defs split: prod.splits sum.splits)

lemma fst_tryCatchAsync_Inl:
  "fst (m h) = Inl e \<Longrightarrow>
     fst (tryCatchAsync m msg h) =
       Inl (if is_McpError e then e
            else McpError InternalError (msg @ '': '' @ template (thrown_message e)))"
  by (cases "m h") (auto simp add: tryCatchAsync_def io_defs)

lemma ensureBranch_last:
  "last (snd (ensureBranch gh owner repo branch h)) \<noteq> GitUpdateRef owner' repo' ref sha"
  by (simp add: ensureBranch_run createBranch_run split: sum.splits)

lemma commitFiles_last:
  assumes "last (snd (commitFiles gh a h)) = GitUpdateRef owner repo ref sha"
    and "git_updateRef (octokit gh) (butlast (snd (commitFiles gh a h))) owner repo ref sha = Inl e"
  shows "fst (commitFiles gh a h) = Inl e"
  using assms unfolding commitFiles_run
  by (auto simp add: last_map butlast_append split: sum.splits if_splits)

lemma stub_push_refused:
  "pushFiles (refused_update_github e) (push_request ''main'') [] =
     (Inl (if is_McpError e then e
           else McpError InternalError (''Failed to push files: '' @ template (thrown_message e))),
      [GitGetRef ''acme'' ''widgets'' ''heads/main'',
       GitGetRef ''acme'' ''widgets'' ''heads/main'',
       GitGetCommit ''acme'' ''widgets'' ''c0'',
       ReposGetContent ''acme'' ''widgets'' ''a.txt'' ''main'',
       ReposGetContent ''acme'' ''widgets'' ''b.txt'' ''main'',
       GitCreateTree ''acme'' ''widgets'' ''t0''
         [\<lparr>entry_path = ''a.txt'', entry_mode = ''100644'', entry_type = ''blob'',
           entry_content = ''x''\<rparr>,
          \<lparr>entry_path = ''b.txt'', entry_mode = ''100644'', entry_type = ''blob'',
           entry_content = ''y''\<rparr>],
       GitCreateCommit ''acme'' ''widgets'' ''M'' ''t1'' [''c0''],
       GitUpdateRef ''acme'' ''widgets'' ''heads/main'' ''c1''])"
  by (simp add: run_defs stub_defs)

text \<open>
  C8, as the code has it. \<^verbatim>\<open>pushFiles\<close> updates the reference on the Octokit client
  itself (lines 134-139), not through the classifier of the client wrapper. When the
  last call of a run is that update and the remote answers it by throwing, the run
  returns no result and throws: the error itself, with its code and message, if it is
  an \<^verbatim>\<open>McpError\<close>; otherwise, as for every HTTP error of the client and whatever
  its status, an internal error whose message is \<^verbatim>\<open>Failed to push files: \<close> followed
  by the message of the error. The dispatcher passes on what the run throws, unchanged.
\<close>

theorem update_error_returned:
  assumes "snd (pushFiles gh args h) = h @ calls @ [GitUpdateRef owner repo ref sha]"
    and "git_updateRef (octokit gh) (h @ calls) owner repo ref sha = Inl e"
  shows "fst (pushFiles gh args h) =
           Inl (if is_McpError e then e
                else McpError InternalError
                       (''Failed to push files: '' @ template (thrown_message e))) \<and>
         (\<forall>res. fst (pushFiles gh args h) \<noteq> Inr res) \<and>
         (\<forall>rt args0.
            parseArguments rt args0 h = (Inr args, h) \<longrightarrow>
            fst (callTool rt gh ''push-files'' args0 h) =
              Inl (if is_McpError e then e
                   else McpError InternalError
                          (''Failed to push files: '' @ template (thrown_message e))))"
proof -
  let ?thrown = "if is_McpError e then e
                 else McpError InternalError
                        (''Failed to push files: '' @ template (thrown_message e))"
  from assms(1)
  have last: "last (snd (pushFiles gh args h)) = GitUpdateRef owner repo ref sha"
    and butlast: "butlast (snd (pushFiles gh args h)) = h @ calls"
    by (simp_all add: butlast_append)
  have thrown: "fst (pushFiles gh args h) = Inl ?thrown"
  proof (cases "PushFilesSchema_parse args")
    case (Inl issues)
    with assms(1) show ?thesis by (simp add: pushFiles_invalid)
  next
    case (Inr a)
    obtain r h1 where ens: "ensureBranch gh (pf_owner a) (pf_repo a) (pf_branch a) h = (r, h1)"
      by (cases "ensureBranch gh (pf_owner a) (pf_repo a) (pf_branch a) h")
    show ?thesis
    proof (cases r)
      case (Inl e')
      with ens have "snd (pushFiles gh args h) = h1"
        by (simp add: pushFiles_run [OF Inr])
      moreover from ens have "last h1 \<noteq> GitUpdateRef owner repo ref sha"
        using ensureBranch_last [of gh "pf_owner a" "pf_repo a" "pf_branch a" h owner repo ref sha]
        by simp
      ultimately show ?thesis using last by simp
    next
      case (Inr existed)
      with ens
      have run: "pushFiles gh args h = tryCatchAsync (commitFiles gh a) ''Failed to push files'' h1"
        by (simp add: pushFiles_run [OF \<open>PushFilesSchema_parse args = Inr a\<close>])
      then have log: "snd (pushFiles gh args h) = snd (commitFiles gh a h1)"
        by (simp add: snd_tryCatchAsync)
      from last butlast assms(2) have "fst (commitFiles gh a h1) = Inl e"
        unfolding log by (intro commitFiles_last) simp_all
      from fst_tryCatchAsync_Inl [where m = "commitFiles gh a" and h = h1
          and msg = "''Failed to push files''", OF this]
      show ?thesis
        unfolding run by simp
    qed
  qed
  moreover have "is_McpError ?thrown" by simp
  then have "fst (callTool rt gh ''push-files'' args0 h) = Inl ?thrown"
    if "parseArguments rt args0 h = (Inr args, h)" for rt args0
    using thrown by (cases "pushFiles gh args h") (simp add: callTool_push_files [OF that])
  ultimately show ?thesis by simp
qed

theorem update_error_returned_witness:
  "git_updateRef
     (octokit (refused_update_github (JsError (Some 409) (Some ''Conflict'') None)))
     ([] @ [GitGetRef ''acme'' ''widgets'' ''heads/main'',
            GitGetRef ''acme'' ''widgets'' ''heads/main'',
            GitGetCommit ''acme'' ''widgets'' ''c0'',
            ReposGetContent ''acme'' ''widgets'' ''a.txt'' ''main'',
            ReposGetContent ''acme'' ''widgets'' ''b.txt'' ''main'',
            GitCreateTree ''acme'' ''widgets'' ''t0''
              [blob_entry \<lparr>file_path = ''a.txt'', file_content = ''x''\<rparr>,
               blob_entry \<lparr>file_path = ''b.txt'', file_content = ''y''\<rparr>],
            GitCreateCommit ''acme'' ''widgets'' ''M'' ''t1'' [''c0'']])
     ''acme'' ''widgets'' ''heads/main'' ''c1'' =
     Inl (JsError (Some 409) (Some ''Conflict'') None) \<and>
   fst (pushFiles (refused_update_github (JsError (Some 409) (Some ''Conflict'') None))
          (push_request ''main'') []) =
     Inl (McpError InternalError ''Failed to push files: Conflict'') \<and>
   fst (callTool stub_runtime
          (refused_update_github (JsError (Some 409) (Some ''Conflict'') None))
          ''push-files'' (push_request ''main'') []) =
     Inl (McpError InternalError ''Failed to push files: Conflict'') \<and>
   fst (pushFiles (refused_update_github (McpError InvalidParams ''not a fast forward''))
          (push_request ''main'') []) =
     Inl (McpError InvalidParams ''not a fast forward'') \<and>
   fst (callTool stub_runtime
          (refused_update_github (McpError InvalidParams ''not a fast forward''))
          ''push-files'' (push_request ''main'') []) =
     Inl (McpError InvalidParams ''not a fast forward'')"
proof -
  let ?calls = "[GitGetRef ''acme'' ''widgets'' ''heads/main'',
            GitGetRef ''acme'' ''widgets'' ''heads/main'',
            GitGetCommit ''acme'' ''widgets'' ''c0'',
            ReposGetContent ''acme'' ''widgets'' ''a.txt'' ''main'',
            ReposGetContent ''acme'' ''widgets'' ''b.txt'' ''main'',
            GitCreateTree ''acme'' ''widgets'' ''t0''
              [blob_entry \<lparr>file_path = ''a.txt'', file_content = ''x''\<rparr>,
               blob_entry \<lparr>file_path = ''b.txt'', file_content = ''y''\<rparr>],
            GitCreateCommit ''acme'' ''widgets'' ''M'' ''t1'' [''c0'']]"
  have log: "snd (pushFiles (refused_update_github e) (push_request ''main'') []) =
      [] @ ?calls @ [GitUpdateRef ''acme'' ''widgets'' ''heads/main'' ''c1'']" for e
    by (simp add: stub_push_refused blob_entry_def)
  have refused: "git_updateRef (octokit (refused_update_github e)) ([] @ ?calls)
      ''acme'' ''widgets'' ''heads/main'' ''c1'' = Inl e" for e
    by (simp add: stub_defs)
  have parsed: "parseArguments stub_runtime (push_request ''main'') [] =
      (Inr (push_request ''main''), [])"
    by (simp add: push_request_def parseArguments_object)
  from update_error_returned [OF log refused, of "JsError (Some 409) (Some ''Conflict'') None"]
    update_error_returned [OF log refused, of "McpError InvalidParams ''not a fast forward''"]
    refused parsed
  show ?thesis by simp
qed

text \<open>
  C8 as stated fails. The update of \<^verbatim>\<open>heads/main\<close> is the last call of the run and
  the client refuses it with the HTTP error of status 422, which the classifier of the
  client wrapper maps to Invalid Parameters. The run returns neither that error nor its
  classification, but an internal error with a prefixed message.
\<close>

theorem update_error_counterexample:
  "snd (pushFiles
          (refused_update_github
             (JsError (Some 422) (Some ''Update is not a fast forward'') None))
          (push_request ''main'') []) =
     [GitGetRef ''acme'' ''widgets'' ''heads/main'',
      GitGetRef ''acme'' ''widgets'' ''heads/main'',
      GitGetCommit ''acme'' ''widgets'' ''c0'',
      ReposGetContent ''acme'' ''widgets'' ''a.txt'' ''main'',
      ReposGetContent ''acme'' ''widgets'' ''b.txt'' ''main'',
      GitCreateTree ''acme'' ''widgets'' ''t0''
        [\<lparr>entry_path = ''a.txt'', entry_mode = ''100644'', entry_type = ''blob'',
          entry_content = ''x''\<rparr>,
         \<lparr>entry_path = ''b.txt'', entry_mode = ''100644'', entry_type = ''blob'',
          entry_content = ''y''\<rparr>],
      GitCreateCommit ''acme'' ''widgets'' ''M'' ''t1'' [''c0''],
      GitUpdateRef ''acme'' ''widgets'' ''heads/main'' ''c1''] \<and>
   git_updateRef
     (octokit
        (refused_update_github
           (JsError (Some 422) (Some ''Update is not a fast forward'') None)))
     [GitGetRef ''acme'' ''widgets'' ''heads/main'',
      GitGetRef ''acme'' ''widgets'' ''heads/main'',
      GitGetCommit ''acme'' ''widgets'' ''c0'',
      ReposGetContent ''acme'' ''widgets'' ''a.txt'' ''main'',
      ReposGetContent ''acme'' ''widgets'' ''b.txt'' ''main'',
      GitCreateTree ''acme'' ''widgets'' ''t0''
        [\<lparr>entry_path = ''a.txt'', entry_mode = ''100644'', entry_type = ''blob'',
          entry_content = ''x''\<rparr>,
         \<lparr>entry_path = ''b.txt'', entry_mode = ''100644'', entry_type = ''blob'',
          entry_content = ''y''\<rparr>],
      GitCreateCommit ''acme'' ''widgets'' ''M'' ''t1'' [''c0'']]
     ''acme'' ''widgets'' ''heads/main'' ''c1'' =
     Inl (JsError (Some 422) (Some ''Update is not a fast forward'') None) \<and>
   handleApiError (JsError (Some 422) (Some ''Update is not a fast forward'') None) =
     McpError InvalidParams ''GitHub API Error: Update is not a fast forward'' \<and>
   fst (pushFiles
          (refused_update_github
             (JsError (Some 422) (Some ''Update is not a fast forward'') None))
          (push_request ''main'') []) =
     Inl (McpError InternalError ''Failed to push files: Update is not a fast forward'')"
proof -
  let ?e = "JsError (Some 422) (Some ''Update is not a fast forward'') None"
  have "git_updateRef (octokit (refused_update_github ?e)) calls
      ''acme'' ''widgets'' ''heads/main'' ''c1'' = Inl ?e" for calls
    by (simp add: stub_defs)
  moreover have "handleApiError ?e =
      McpError InvalidParams ''GitHub API Error: Update is not a fast forward''"
    by (simp add: Let_def)
  ultimately show ?thesis
    by (simp add: stub_push_refused)
qed

subsection \<open>Branch-ensure\<close>

lemma stub_parse_feature:
  "PushFilesSchema_parse (push_request ''feature-x'') =
     Inr \<lparr>pf_owner = ''acme'', pf_repo = ''widgets'', pf_branch = ''feature-x'',
          pf_files = [\<lparr>file_path = ''a.txt'', file_content = ''x''\<rparr>,
                      \<lparr>file_path = ''b.txt'', file_content = ''y''\<rparr>],
          pf_message = ''M''\<rparr>"
  by (simp add: stub_parse)

lemma stub_ensure_twice:
  "ensureBranch stub_github ''acme'' ''widgets'' ''feature-x'' [] =
     (Inr False,
      [GitGetRef ''acme'' ''widgets'' ''heads/feature-x'',
       ReposGet ''acme'' ''widgets'',
       GitGetRef ''acme'' ''widgets'' ''heads/main'',
       GitCreateRef ''acme'' ''widgets'' ''refs/heads/feature-x'' ''c0''])"
  "ensureBranch stub_github ''acme'' ''widgets'' ''feature-x''
     [GitGetRef ''acme'' ''widgets'' ''heads/feature-x'',
      ReposGet ''acme'' ''widgets'',
      GitGetRef ''acme'' ''widgets'' ''heads/main'',
      GitCreateRef ''acme'' ''widgets'' ''refs/heads/feature-x'' ''c0''] =
     (Inr True,
      [GitGetRef ''acme'' ''widgets'' ''heads/feature-x'',
       ReposGet ''acme'' ''widgets'',
       GitGetRef ''acme'' ''widgets'' ''heads/main'',
       GitCreateRef ''acme'' ''widgets'' ''refs/heads/feature-x'' ''c0'',
       GitGetRef ''acme'' ''widgets'' ''heads/feature-x''])"
  by (simp_all add: ensureBranch_def branchExists_def createBranch_def getDefaultBranch_def
      io_defs stub_defs)

lemma stub_push_feature:
  "pushFiles stub_github (push_request ''feature-x'') [] =
     (Inr \<lparr>result_success = True, result_branch = ''feature-x'', result_commit_sha = ''c1'',
           result_commit_message = ''M'',
           result_commit_url = ''https://github.com/acme/widgets/commit/c1'',
           result_files = [''a.txt'', ''b.txt'']\<rparr>,
      [GitGetRef ''acme'' ''widgets'' ''heads/feature-x'',
       ReposGet ''acme'' ''widgets'',
       GitGetRef ''acme'' ''widgets'' ''heads/main'',
       GitCreateRef ''acme'' ''widgets'' ''refs/heads/feature-x'' ''c0'',
       GitGetRef ''acme'' ''widgets'' ''heads/feature-x'',
       GitGetCommit ''acme'' ''widgets'' ''c0'',
       ReposGetContent ''acme'' ''widgets'' ''a.txt'' ''feature-x'',
       ReposGetContent ''acme'' ''widgets'' ''b.txt'' ''feature-x'',
       GitCreateTree ''acme'' ''widgets'' ''t0''
         [\<lparr>entry_path = ''a.txt'', entry_mode = ''100644'', entry_type = ''blob'',
           entry_content = ''x''\<rparr>,
          \<lparr>entry_path = ''b.txt'', entry_mode = ''100644'', entry_type = ''blob'',
           entry_content = ''y''\<rparr>],
       GitCreateCommit ''acme'' ''widgets'' ''M'' ''t1'' [''c0''],
       GitUpdateRef ''acme'' ''widgets'' ''heads/feature-x'' ''c1''])"
  by (simp add: run_defs stub_defs)

text \<open>
  C9. A run of \<^verbatim>\<open>pushFiles\<close> on valid arguments is the branch-ensure step followed,
  only if that step did not throw, by the commit steps, which start from the log the
  branch-ensure step left: the first call of the run is the probe, the branch-ensure step
  issues no commit read, tree creation, commit creation or reference update, and the calls
  of the commit steps (the head read first) are appended after it. Branch-ensure is
  idempotent: when a first call returned and the branch exists afterwards, a second call
  reports it as existing, throws nothing and issues the probe only. The first call
  throws nothing either: it reports an existing branch as existing, and, when the branch
  is absent and the remote answers the three creation calls, it creates the branch from
  the default branch and reports it as absent.
\<close>

theorem ensure_first_and_idempotent:
  fixes a :: push_files_args
  defines "owner \<equiv> pf_owner a" and "repo \<equiv> pf_repo a" and "branch \<equiv> pf_branch a"
  defines "lookup \<equiv> GitGetRef owner repo (''heads/'' @ branch)"
  assumes "PushFilesSchema_parse args = Inr a"
  shows
    "pushFiles gh args h =
       (case ensureBranch gh owner repo branch h of
          (Inl e, h1) \<Rightarrow> (Inl e, h1)
        | (Inr existed, h1) \<Rightarrow> tryCatchAsync (commitFiles gh a) ''Failed to push files'' h1) \<and>
     (\<exists>calls. snd (ensureBranch gh owner repo branch h) = h @ lookup # calls \<and>
        (\<forall>q \<in> set calls. \<not> commit_step q)) \<and>
     (\<forall>h1. \<exists>calls.
        snd (tryCatchAsync (commitFiles gh a) ''Failed to push files'' h1) = h1 @ lookup # calls) \<and>
     (\<forall>existed h1 found.
        ensureBranch gh owner repo branch h = (Inr existed, h1) \<and>
        git_getRef (octokit gh) h1 owner repo (''heads/'' @ branch) = Inr found \<longrightarrow>
        ensureBranch gh owner repo branch h1 = (Inr True, h1 @ [lookup])) \<and>
     (\<forall>found. git_getRef (octokit gh) h owner repo (''heads/'' @ branch) = Inr found \<longrightarrow>
        ensureBranch gh owner repo branch h = (Inr True, h @ [lookup])) \<and>
     (\<forall>e data refData created.
        git_getRef (octokit gh) h owner repo (''heads/'' @ branch) = Inl e \<and>
        thrown_status e = Some 404 \<and>
        repos_get (octokit gh) (h @ [lookup]) owner repo = Inr data \<and>
        git_getRef (octokit gh) (h @ [lookup, ReposGet owner repo]) owner repo
          (''heads/'' @ default_branch data) = Inr refData \<and>
        git_createRef (octokit gh)
          (h @ [lookup, ReposGet owner repo,
                GitGetRef owner repo (''heads/'' @ default_branch data)])
          owner repo (''refs/heads/'' @ branch) (object_sha refData) = Inr created \<longrightarrow>
        ensureBranch gh owner repo branch h =
          (Inr False,
           h @ [lookup, ReposGet owner repo,
                GitGetRef owner repo (''heads/'' @ default_branch data),
                GitCreateRef owner repo (''refs/heads/'' @ branch) (object_sha refData)]))"
proof (intro conjI)
  show "pushFiles gh args h =
       (case ensureBranch gh owner repo branch h of
          (Inl e, h1) \<Rightarrow> (Inl e, h1)
        | (Inr existed, h1) \<Rightarrow> tryCatchAsync (commitFiles gh a) ''Failed to push files'' h1)"
    unfolding owner_def repo_def branch_def by (rule pushFiles_run [OF assms(5)])
next
  show "\<exists>calls. snd (ensureBranch gh owner repo branch h) = h @ lookup # calls \<and>
        (\<forall>q \<in> set calls. \<not> commit_step q)"
    by (auto simp add: lookup_def ensureBranch_run createBranch_run split: sum.splits)
next
  show "\<forall>h1. \<exists>calls.
        snd (tryCatchAsync (commitFiles gh a) ''Failed to push files'' h1) = h1 @ lookup # calls"
    by (auto simp add: snd_tryCatchAsync commitFiles_run lookup_def owner_def repo_def branch_def
        split: sum.splits)
next
  show "\<forall>existed h1 found.
        ensureBranch gh owner repo branch h = (Inr existed, h1) \<and>
        git_getRef (octokit gh) h1 owner repo (''heads/'' @ branch) = Inr found \<longrightarrow>
        ensureBranch gh owner repo branch h1 = (Inr True, h1 @ [lookup])"
    by (simp add: ensureBranch_run lookup_def)
next
  show "\<forall>found. git_getRef (octokit gh) h owner repo (''heads/'' @ branch) = Inr found \<longrightarrow>
        ensureBranch gh owner repo branch h = (Inr True, h @ [lookup])"
    by (simp add: ensureBranch_run lookup_def)
next
  show "\<forall>e data refData created.
        git_getRef (octokit gh) h owner repo (''heads/'' @ branch) = Inl e \<and>
        thrown_status e = Some 404 \<and>
        repos_get (octokit gh) (h @ [lookup]) owner repo = Inr data \<and>
        git_getRef (octokit gh) (h @ [lookup, ReposGet owner repo]) owner repo
          (''heads/'' @ default_branch data) = Inr refData \<and>
        git_createRef (octokit gh)
          (h @ [lookup, ReposGet owner repo,
                GitGetRef owner repo (''heads/'' @ default_branch data)])
          owner repo (''refs/heads/'' @ branch) (object_sha refData) = Inr created \<longrightarrow>
        ensureBranch gh owner repo branch h =
          (Inr False,
           h @ [lookup, ReposGet owner repo,
                GitGetRef owner repo (''heads/'' @ default_branch data),
                GitCreateRef owner repo (''refs/heads/'' @ branch) (object_sha refData)])"
    by (simp add: ensureBranch_run createBranch_run lookup_def)
qed


theorem ensure_first_and_idempotent_witness:
  "ensureBranch stub_github ''acme'' ''widgets'' ''feature-x'' [] =
     (Inr False,
      [GitGetRef ''acme'' ''widgets'' ''heads/feature-x'',
       ReposGet ''acme'' ''widgets'',
       GitGetRef ''acme'' ''widgets'' ''heads/main'',
       GitCreateRef ''acme'' ''widgets'' ''refs/heads/feature-x'' ''c0'']) \<and>
   ensureBranch stub_github ''acme'' ''widgets'' ''feature-x''
     [GitGetRef ''acme'' ''widgets'' ''heads/feature-x'',
      ReposGet ''acme'' ''widgets'',
      GitGetRef ''acme'' ''widgets'' ''heads/main'',
      GitCreateRef ''acme'' ''widgets'' ''refs/heads/feature-x'' ''c0''] =
     (Inr True,
      [GitGetRef ''acme'' ''widgets'' ''heads/feature-x'',
       ReposGet ''acme'' ''widgets'',
       GitGetRef ''acme'' ''widgets'' ''heads/main'',
       GitCreateRef ''acme'' ''widgets'' ''refs/heads/feature-x'' ''c0'',
       GitGetRef ''acme'' ''widgets'' ''heads/feature-x'']) \<and>
   pushFiles stub_github (push_request ''feature-x'') [] =
     tryCatchAsync
       (commitFiles stub_github
          \<lparr>pf_owner = ''acme'', pf_repo = ''widgets'', pf_branch = ''feature-x'',
           pf_files = [\<lparr>file_path = ''a.txt'', file_content = ''x''\<rparr>,
                       \<lparr>file_path = ''b.txt'', file_content = ''y''\<rparr>],
           pf_message = ''M''\<rparr>)
       ''Failed to push files''
       [GitGetRef ''acme'' ''widgets'' ''heads/feature-x'',
        ReposGet ''acme'' ''widgets'',
        GitGetRef ''acme'' ''widgets'' ''heads/main'',
        GitCreateRef ''acme'' ''widgets'' ''refs/heads/feature-x'' ''c0''] \<and>
   fst (pushFiles stub_github (push_request ''feature-x'') []) =
     Inr \<lparr>result_success = True, result_branch = ''feature-x'', result_commit_sha = ''c1'',
          result_commit_message = ''M'',
          result_commit_url = ''https://github.com/acme/widgets/commit/c1'',
          result_files = [''a.txt'', ''b.txt'']\<rparr>"
proof -
  note T = ensure_first_and_idempotent [OF stub_parse_feature, where gh = stub_github and h = "[]"]
  from T [THEN conjunct1] have run:
    "pushFiles stub_github (push_request ''feature-x'') [] =
     tryCatchAsync
       (commitFiles stub_github
          \<lparr>pf_owner = ''acme'', pf_repo = ''widgets'', pf_branch = ''feature-x'',
           pf_files = [\<lparr>file_path = ''a.txt'', file_content = ''x''\<rparr>,
                       \<lparr>file_path = ''b.txt'', file_content = ''y''\<rparr>],
           pf_message = ''M''\<rparr>)
       ''Failed to push files''
       [GitGetRef ''acme'' ''widgets'' ''heads/feature-x'',
        ReposGet ''acme'' ''widgets'',
        GitGetRef ''acme'' ''widgets'' ''heads/main'',
        GitCreateRef ''acme'' ''widgets'' ''refs/heads/feature-x'' ''c0'']"
    by (simp add: stub_ensure_twice(1))
  show ?thesis
    by (intro conjI) (rule stub_ensure_twice run | simp add: stub_push_feature)+
qed

subsection \<open>File content round trip\<close>

lemma base64_value_char: "n < 64 \<Longrightarrow> base64_value (base64_char n) = Some n"
  unfolding base64_value_def base64_char_def by auto

lemma base64_char_not_pad: "n < 64 \<Longrightarrow> base64_char n \<noteq> 61"
  unfolding base64_char_def by auto

lemma sextets_char: "n < 64 \<Longrightarrow> sextets (base64_char n # us) = n # sextets us"
  by (simp add: base64_value_char base64_char_not_pad)

lemma sextets_pad: "sextets (61 # us) = []"
  by simp

lemma base64_roundtrip:
  "\<forall>b \<in> set bs. b < 256 \<Longrightarrow> Buffer_from_base64 (Buffer_toString_base64 bs) = bs"
proof (induction bs rule: Buffer_toString_base64.induct)
  case 1
  then show ?case by (simp add: Buffer_from_base64_def)
next
  case (2 a)
  then have a: "a < 256" by simp
  then have "a div 4 < 64" "a mod 4 * 16 < 64" by auto
  then have "sextets (Buffer_toString_base64 [a]) = [a div 4, a mod 4 * 16]"
    by (simp only: Buffer_toString_base64.simps sextets_char sextets_pad)
  then show ?case by (simp add: Buffer_from_base64_def)
next
  case (3 a b)
  then have ab: "a < 256" "b < 256" by simp_all
  then have "a div 4 < 64" "a mod 4 * 16 + b div 16 < 64" "b mod 16 * 4 < 64" by auto
  then have "sextets (Buffer_toString_base64 [a, b]) =
      [a div 4, a mod 4 * 16 + b div 16, b mod 16 * 4]"
    by (simp only: Buffer_toString_base64.simps sextets_char sextets_pad)
  moreover from ab have "(a mod 4 * 16 + b div 16) div 16 = a mod 4"
    "(a mod 4 * 16 + b div 16) mod 16 = b div 16" by auto
  ultimately show ?case by (simp add: Buffer_from_base64_def)
next
  case (4 a b c bs)
  then have abc: "a < 256" "b < 256" "c < 256" and rest: "\<forall>b \<in> set bs. b < 256" by simp_all
  then have "a div 4 < 64" "a mod 4 * 16 + b div 16 < 64" "b mod 16 * 4 + c div 64 < 64"
    "c mod 64 < 64" by auto
  then have "sextets (Buffer_toString_base64 (a # b # c # bs)) =
      a div 4 # (a mod 4 * 16 + b div 16) # (b mod 16 * 4 + c div 64) # c mod 64 #
      sextets (Buffer_toString_base64 bs)"
    by (simp only: Buffer_toString_base64.simps sextets_char append_Cons append_Nil)
  moreover from abc have "(a mod 4 * 16 + b div 16) div 16 = a mod 4"
    "(a mod 4 * 16 + b div 16) mod 16 = b div 16"
    "(b mod 16 * 4 + c div 64) div 4 = b mod 16"
    "(b mod 16 * 4 + c div 64) mod 4 = c div 64" by auto
  ultimately show ?case
    using "4.IH" [OF rest] by (simp add: Buffer_from_base64_def)
qed


lemma digits3:
  fixes c :: nat
  obtains A B M where "c div 4096 = A" "c div 64 mod 64 = B" "c mod 64 = M"
    "c = A * 4096 + B * 64 + M" "B < 64" "M < 64"
proof -
  define x1 where "x1 = c div 64"
  define x2 where "x2 = x1 div 64"
  have a: "c = x1 * 64 + c mod 64" unfolding x1_def by simp
  have b: "x1 = x2 * 64 + x1 mod 64" unfolding x2_def by simp
  have c2: "c div 4096 = x2" unfolding x2_def x1_def by (simp add: div_mult2_eq [symmetric])
  have m: "x1 mod 64 < 64" "c mod 64 < 64" by simp_all
  define B where "B = x1 mod 64"
  define M where "M = c mod 64"
  from a b have "c = x2 * 4096 + B * 64 + M" unfolding B_def [symmetric] M_def [symmetric]
    by linarith
  with c2 m show thesis
    using that [of x2 B M] unfolding B_def M_def x1_def by simp
qed

lemma digits4:
  fixes c :: nat
  obtains A B C M where "c div 262144 = A" "c div 4096 mod 64 = B" "c div 64 mod 64 = C"
    "c mod 64 = M" "c = A * 262144 + B * 4096 + C * 64 + M" "B < 64" "C < 64" "M < 64"
proof -
  define x1 where "x1 = c div 64"
  define x2 where "x2 = x1 div 64"
  define x3 where "x3 = x2 div 64"
  have a: "c = x1 * 64 + c mod 64" unfolding x1_def by simp
  have b: "x1 = x2 * 64 + x1 mod 64" unfolding x2_def by simp
  have d: "x2 = x3 * 64 + x2 mod 64" unfolding x3_def by simp
  have c2: "c div 4096 = x2" unfolding x2_def x1_def by (simp add: div_mult2_eq [symmetric])
  have c3: "c div 262144 = x3" unfolding x3_def x2_def x1_def
    by (simp add: div_mult2_eq [symmetric])
  have m: "x2 mod 64 < 64" "x1 mod 64 < 64" "c mod 64 < 64" by simp_all
  define B where "B = x2 mod 64"
  define C where "C = x1 mod 64"
  define M where "M = c mod 64"
  from a b d have "c = x3 * 262144 + B * 4096 + C * 64 + M"
    unfolding B_def [symmetric] C_def [symmetric] M_def [symmetric]
    by linarith
  with c2 c3 m show thesis
    using that [of x3 B C M] unfolding B_def C_def M_def x1_def by simp
qed


lemma utf8_bytes_small: "c < 0x110000 \<Longrightarrow> \<forall>b \<in> set (utf8_bytes c). b < 256"
proof -
  assume c: "c < 0x110000"
  consider "c < 0x80" | "0x80 \<le> c" "c < 0x800" | "0x800 \<le> c" "c < 0x10000"
    | "0x10000 \<le> c" by linarith
  then show ?thesis
  proof cases
    case 1
    then show ?thesis by (simp add: utf8_bytes_def)
  next
    case 2
    then have "c div 64 < 32" by simp
    with 2 show ?thesis by (simp add: utf8_bytes_def)
  next
    case 3
    obtain A B M where d: "c div 4096 = A" "c div 64 mod 64 = B" "c mod 64 = M"
      "c = A * 4096 + B * 64 + M" "B < 64" "M < 64" by (rule digits3)
    from 3 d(4-6) have "A < 16" by linarith
    with 3 d show ?thesis by (simp add: utf8_bytes_def)
  next
    case 4
    obtain A B C M where d: "c div 262144 = A" "c div 4096 mod 64 = B" "c div 64 mod 64 = C"
      "c mod 64 = M" "c = A * 262144 + B * 4096 + C * 64 + M" "B < 64" "C < 64" "M < 64"
      by (rule digits4)
    from c d(5-8) have "A < 8" by linarith
    with 4 d show ?thesis by (simp add: utf8_bytes_def)
  qed
qed

lemma utf8_decode_bytes:
  assumes "scalar_value c"
  shows "utf8_code_points (utf8_bytes c @ bs) = c # utf8_code_points bs"
proof -
  from assms have c: "c < 0x110000" "c < 0xD800 \<or> 0xDFFF < c"
    by (auto simp add: scalar_value_def)
  consider "c < 0x80" | "0x80 \<le> c" "c < 0x800" | "0x800 \<le> c" "c < 0x10000"
    | "0x10000 \<le> c" by linarith
  then show ?thesis
  proof cases
    case 1
    then show ?thesis by (simp add: utf8_bytes_def)
  next
    case 2
    define A where "A = c div 64"
    define M where "M = c mod 64"
    have eq: "c = A * 64 + M" and M: "M < 64" unfolding A_def M_def by simp_all
    from 2 eq M have A: "2 \<le> A" "A < 32" by linarith+
    from 2 have "utf8_bytes c = [0xC0 + A, 0x80 + M]"
      by (simp add: utf8_bytes_def A_def M_def)
    moreover from A M
    have "utf8_code_points ([0xC0 + A, 0x80 + M] @ bs) = (A * 64 + M) # utf8_code_points bs"
      by (simp add: continuation_def)
    ultimately show ?thesis using eq by simp
  next
    case 3
    obtain A B M where d: "c div 4096 = A" "c div 64 mod 64 = B" "c mod 64 = M"
      and eq: "c = A * 4096 + B * 64 + M" and b: "B < 64" "M < 64" by (rule digits3)
    from 3 eq b have A: "A < 16" by linarith
    from 3 eq b have e0: "A = 0 \<Longrightarrow> 32 \<le> B" by linarith
    from c eq b have ed: "A = 13 \<Longrightarrow> B < 32" by linarith
    from 3 have "utf8_bytes c = [0xE0 + A, 0x80 + B, 0x80 + M]"
      by (simp add: utf8_bytes_def d)
    moreover from A b e0 ed
    have "utf8_code_points ([0xE0 + A, 0x80 + B, 0x80 + M] @ bs) =
        (A * 4096 + B * 64 + M) # utf8_code_points bs"
      by (auto simp add: continuation_def)
    ultimately show ?thesis using eq by simp
  next
    case 4
    obtain A B C M where d: "c div 262144 = A" "c div 4096 mod 64 = B" "c div 64 mod 64 = C"
      "c mod 64 = M" and eq: "c = A * 262144 + B * 4096 + C * 64 + M"
      and b: "B < 64" "C < 64" "M < 64"
      by (rule digits4)
    from 4 c eq b have A: "A \<le> 4" by linarith
    from 4 eq b have f0: "A = 0 \<Longrightarrow> 16 \<le> B" by linarith
    from c eq b have f4: "A = 4 \<Longrightarrow> B < 16" by linarith
    from 4 have "utf8_bytes c = [0xF0 + A, 0x80 + B, 0x80 + C, 0x80 + M]"
      by (simp add: utf8_bytes_def d)
    moreover from A b f0 f4
    have "utf8_code_points ([0xF0 + A, 0x80 + B, 0x80 + C, 0x80 + M] @ bs) =
        (A * 262144 + B * 4096 + C * 64 + M) # utf8_code_points bs"
      by (auto simp add: continuation_def)
    ultimately show ?thesis using eq by simp
  qed
qed


lemma toString_utf8_bytes:
  "scalar_value c \<Longrightarrow>
     Buffer_toString_utf8 (utf8_bytes c @ bs) = utf16_units c @ Buffer_toString_utf8 bs"
  by (simp add: Buffer_toString_utf8_def utf8_decode_bytes)

lemma unit_scalar:
  assumes "u < 0x10000" "\<not> is_high_surrogate u" "\<not> is_low_surrogate u"
  shows "scalar_value u" and "utf16_units u = [u]"
  using assms
  by (auto simp add: scalar_value_def utf16_units_def is_high_surrogate_def is_low_surrogate_def)

lemma pair_scalar:
  assumes "is_high_surrogate u" "is_low_surrogate v"
  shows "scalar_value (0x10000 + (u - 0xD800) * 1024 + (v - 0xDC00))"
    and "utf16_units (0x10000 + (u - 0xD800) * 1024 + (v - 0xDC00)) = [u, v]"
proof -
  define x where "x = u - 0xD800"
  define y where "y = v - 0xDC00"
  from assms have x: "x < 1024" "u = 0xD800 + x" and y: "y < 1024" "v = 0xDC00 + y"
    by (auto simp add: x_def y_def is_high_surrogate_def is_low_surrogate_def)
  from x(1) y(1) show "scalar_value (0x10000 + (u - 0xD800) * 1024 + (v - 0xDC00))"
    unfolding x_def [symmetric] y_def [symmetric] by (simp add: scalar_value_def)
  from y(1) have "(x * 1024 + y) div 1024 = x" "(x * 1024 + y) mod 1024 = y" by simp_all
  with x y show "utf16_units (0x10000 + (u - 0xD800) * 1024 + (v - 0xDC00)) = [u, v]"
    unfolding x_def [symmetric] y_def [symmetric] by (simp add: utf16_units_def)
qed

lemma utf8_roundtrip:
  "well_formed s \<Longrightarrow>
     Buffer_toString_utf8 (Buffer_from_utf8 s) = s \<and> (\<forall>b \<in> set (Buffer_from_utf8 s). b < 256)"
proof (induction s rule: Buffer_from_utf8.induct)
  case 1
  show ?case by (simp add: Buffer_toString_utf8_def)
next
  case (2 u)
  then have u: "u < 0x10000" "\<not> is_high_surrogate u" "\<not> is_low_surrogate u" by simp_all
  from toString_utf8_bytes [OF unit_scalar(1) [OF u], of "[]"] unit_scalar(2) [OF u]
  have "Buffer_toString_utf8 (utf8_bytes u) = [u]"
    by (simp add: Buffer_toString_utf8_def)
  moreover from u(1) have "\<forall>b \<in> set (utf8_bytes u). b < 256"
    by (intro utf8_bytes_small) simp
  ultimately show ?case using u by simp
next
  case (3 u v us)
  show ?case
  proof (cases "is_high_surrogate u")
    case True
    with "3.prems" have v: "is_low_surrogate v" and rest: "well_formed us" by simp_all
    let ?c = "0x10000 + (u - 0xD800) * 1024 + (v - 0xDC00)"
    have sc: "scalar_value ?c" and units: "utf16_units ?c = [u, v]"
      using pair_scalar [OF True v] by simp_all
    from sc have "\<forall>b \<in> set (utf8_bytes ?c). b < 256"
      by (intro utf8_bytes_small) (simp add: scalar_value_def)
    with True v "3.IH"(1) [OF True v rest] toString_utf8_bytes [OF sc] units
    show ?thesis by auto
  next
    case False
    with "3.prems" have u: "u < 0x10000" "\<not> is_high_surrogate u" "\<not> is_low_surrogate u"
      and rest: "well_formed (v # us)" by simp_all
    from u(1) have "\<forall>b \<in> set (utf8_bytes u). b < 256"
      by (intro utf8_bytes_small) simp
    with u "3.IH"(4) [OF u(2) u(3) rest] toString_utf8_bytes [OF unit_scalar(1) [OF u]]
      unit_scalar(2) [OF u]
    show ?thesis by auto
  qed
qed

text \<open>
  A surrogate without its partner does not survive: it comes back as U+FFFD.
\<close>

lemma lone_surrogate_replaced: "base64ToUtf8 (utf8ToBase64 [0xD83D]) = [0xFFFD]"
  by (simp add: base64ToUtf8_def utf8ToBase64_def utf8_bytes_def base64_char_def
      base64_value_def Buffer_from_base64_def Buffer_toString_utf8_def utf16_units_def
      continuation_def is_high_surrogate_def is_low_surrogate_def)

text \<open>
  C7. For every well-formed text \<open>s\<close> (UTF-16 code units in which every surrogate is
  half of a pair, that is, text that has a UTF-8 form), decoding the base64 of the UTF-8
  bytes of \<open>s\<close> gives \<open>s\<close> back: \<open>base64ToUtf8 (utf8ToBase64 s) = s\<close>. So the
  content that the file-content-write operation sends for a non-empty \<open>s\<close> is read
  back as \<open>s\<close> by the file-content-read operation.
\<close>

theorem content_roundtrip:
  assumes "well_formed s"
  shows "base64ToUtf8 (utf8ToBase64 s) = s \<and>
         (s \<noteq> [] \<longrightarrow> read_content (Some (written_content s)) = Some s)"
proof -
  from utf8_roundtrip [OF assms]
  have decoded: "Buffer_toString_utf8 (Buffer_from_utf8 s) = s"
    and bytes: "\<forall>b \<in> set (Buffer_from_utf8 s). b < 256" by simp_all
  from base64_roundtrip [OF bytes] decoded
  have round: "base64ToUtf8 (utf8ToBase64 s) = s"
    by (simp add: base64ToUtf8_def utf8ToBase64_def)
  moreover have "utf8ToBase64 s \<noteq> []" if "s \<noteq> []"
  proof
    assume "utf8ToBase64 s = []"
    then have "base64ToUtf8 (utf8ToBase64 s) = []"
      by (simp add: base64ToUtf8_def Buffer_from_base64_def Buffer_toString_utf8_def)
    with round that show False by simp
  qed
  ultimately show ?thesis
    by (simp add: read_content_def written_content_def)
qed

theorem content_roundtrip_witness:
  "well_formed [104, 105, 0xD83D, 0xDE00, 0xE9, 10] \<and>
   utf8ToBase64 [104, 105, 0xD83D, 0xDE00, 0xE9, 10] =
     [97, 71, 110, 119, 110, 53, 105, 65, 119, 54, 107, 75] \<and>
   base64ToUtf8 (utf8ToBase64 [104, 105, 0xD83D, 0xDE00, 0xE9, 10]) =
     [104, 105, 0xD83D, 0xDE00, 0xE9, 10] \<and>
   read_content (Some (written_content [104, 105, 0xD83D, 0xDE00, 0xE9, 10])) =
     Some [104, 105, 0xD83D, 0xDE00, 0xE9, 10]"
proof -
  have wf: "well_formed [104, 105, 0xD83D, 0xDE00, 0xE9, 10]"
    by (simp add: is_high_surrogate_def is_low_surrogate_def)
  have enc: "utf8ToBase64 [104, 105, 0xD83D, 0xDE00, 0xE9, 10] =
     [97, 71, 110, 119, 110, 53, 105, 65, 119, 54, 107, 75]"
    by (simp add: utf8ToBase64_def utf8_bytes_def base64_char_def is_high_surrogate_def
        is_low_surrogate_def)
  from content_roundtrip [OF wf] wf enc show ?thesis by simp
qed

end
